theory Spec2Isabelle
  imports Main "HOL-Library.Sublist"
begin

text \<open>
  A model of the backend of the Rahl AI APK builder: the classifier
  \<open>RahlAIBuilder.analyze_description\<close>, the scaffolding \<open>generate_android_project\<close>, the
  build job \<open>create_project\<close> and \<open>build_project_thread\<close> with the request handlers of
  \<open>src/backend/app.py\<close>, and the build invoker \<open>AndroidAPKBuilder.build_apk\<close> of
  \<open>src/backend/build.py\<close>.  The definitions come first, the proved properties after them.
\<close>

section \<open>Python strings\<close>

text \<open>
  A Python \<open>str\<close> is modelled as a \<open>string\<close> whose characters are the code points
  0..255 (the Latin-1 range of Unicode).  On that range \<open>str.lower\<close>, \<open>str.isspace\<close>,
  \<open>str.split()\<close>, \<open>str.strip()\<close>, \<open>in\<close>, \<open>str.join\<close> and slicing are as below.
  Descriptions with code points above 255 are outside the model: there \<open>str.lower\<close> maps
  by the Unicode tables, leaves some upper-case letters as they are and can change the
  length of the text.  The properties below are about descriptions within the range, and
  none says which letters are upper-case.
\<close>

definition py_lower_char :: "char \<Rightarrow> char" where
  "py_lower_char c =
     (let n = (of_char c :: nat)
      in if (65 \<le> n \<and> n \<le> 90) \<or> (192 \<le> n \<and> n \<le> 222 \<and> n \<noteq> 215)
         then char_of (n + 32) else c)"

definition py_lower :: "string \<Rightarrow> string" where
  "py_lower s = map py_lower_char s"

definition py_isspace :: "char \<Rightarrow> bool" where
  "py_isspace c =
     (let n = (of_char c :: nat)
      in (9 \<le> n \<and> n \<le> 13) \<or> (28 \<le> n \<and> n \<le> 32) \<or> n = 133 \<or> n = 160)"

text \<open>\<open>s.strip()\<close>: leading and trailing whitespace removed.\<close>

definition py_strip :: "string \<Rightarrow> string" where
  "py_strip s = rev (dropWhile py_isspace (rev (dropWhile py_isspace s)))"

text \<open>
  \<open>s.split()\<close>: the maximal runs of non-whitespace characters, in order.  The first
  argument is the token read so far.
\<close>

fun split_from :: "string \<Rightarrow> string \<Rightarrow> string list" where
  "split_from cur [] = (if cur = [] then [] else [cur])"
| "split_from cur (c # cs) =
     (if py_isspace c
      then (if cur = [] then split_from [] cs else cur # split_from [] cs)
      else split_from (cur @ [c]) cs)"

definition py_split :: "string \<Rightarrow> string list" where
  "py_split s = split_from [] s"

text \<open>\<open>sep.join(xs)\<close>.\<close>

fun py_join :: "string \<Rightarrow> string list \<Rightarrow> string" where
  "py_join sep [] = []"
| "py_join sep [x] = x"
| "py_join sep (x # y # ys) = x @ sep @ py_join sep (y # ys)"

text \<open>\<open>s.startswith(p)\<close> and the substring test \<open>kw in s\<close>.\<close>

fun starts_with :: "string \<Rightarrow> string \<Rightarrow> bool" where
  "starts_with s [] = True"
| "starts_with [] (p # ps) = False"
| "starts_with (c # cs) (p # ps) = (c = p \<and> starts_with cs ps)"

fun py_in :: "string \<Rightarrow> string \<Rightarrow> bool" where
  "py_in kw [] = (kw = [])"
| "py_in kw (c # cs) = (starts_with (c # cs) kw \<or> py_in kw cs)"

text \<open>\<open>s.replace(a, b)\<close> for one-character \<open>a\<close> and \<open>b\<close>.\<close>

definition replace_char :: "char \<Rightarrow> char \<Rightarrow> string \<Rightarrow> string" where
  "replace_char a b s = map (\<lambda>c. if c = a then b else c) s"


section \<open>The intent classifier: \<open>RahlAIBuilder.analyze_description\<close>\<close>

record analysis =
  app_type :: string
  features :: "string list"
  package_name :: string
  detected_features :: nat

text \<open>The dictionary \<open>keywords\<close>, in insertion order (the order \<open>keywords.items()\<close> yields).\<close>

definition keywords_dict :: "(string \<times> string list) list" where
  "keywords_dict =
    [(''calculator'', [''calculator'', ''calculate'', ''math'', ''arithmetic'', ''add'', ''subtract'']),
     (''webview'', [''website'', ''web'', ''http'', ''blog'', ''site'', ''browser'']),
     (''todo'', [''todo'', ''to-do'', ''task'', ''checklist'', ''reminder'', ''schedule'']),
     (''notes'', [''note'', ''notepad'', ''write'', ''journal'', ''diary'']),
     (''weather'', [''weather'', ''forecast'', ''temperature'', ''climate'']),
     (''game'', [''game'', ''play'', ''fun'', ''entertain'', ''tic-tac-toe'', ''puzzle''])]"

text \<open>
  The inner loop \<open>for keyword in kw_list\<close>: on the first keyword found in the text it
  assigns \<open>app_type = template_type\<close> and leaves the inner loop (\<open>break\<close>); with no
  keyword found \<open>app_type\<close> keeps its value.
\<close>

fun keyword_loop :: "string \<Rightarrow> string \<Rightarrow> string list \<Rightarrow> string \<Rightarrow> string" where
  "keyword_loop description_lower template_type [] app = app"
| "keyword_loop description_lower template_type (keyword # rest) app =
     (if py_in keyword description_lower then template_type
      else keyword_loop description_lower template_type rest app)"

text \<open>
  The outer loop \<open>for template_type, kw_list in keywords.items()\<close>: it runs over every
  entry; the \<open>break\<close> of the inner loop does not leave it.
\<close>

fun template_loop :: "string \<Rightarrow> (string \<times> string list) list \<Rightarrow> string \<Rightarrow> string" where
  "template_loop description_lower [] app = app"
| "template_loop description_lower ((template_type, kw_list) # rest) app =
     template_loop description_lower rest
       (keyword_loop description_lower template_type kw_list app)"

definition determine_app_type :: "string \<Rightarrow> string" where
  "determine_app_type description_lower = template_loop description_lower keywords_dict ''webview''"

definition extract_features :: "string \<Rightarrow> string list" where
  "extract_features description_lower =
     (if py_in ''dark'' description_lower \<or> py_in ''dark mode'' description_lower
      then [''dark_mode''] else []) @
     (if py_in ''notification'' description_lower then [''notifications''] else []) @
     (if py_in ''database'' description_lower \<or> py_in ''store'' description_lower
         \<or> py_in ''save'' description_lower
      then [''database''] else []) @
     (if py_in ''share'' description_lower then [''sharing''] else []) @
     (if py_in ''login'' description_lower \<or> py_in ''sign in'' description_lower
      then [''authentication''] else [])"

definition generate_package_name :: "string \<Rightarrow> string" where
  "generate_package_name description_lower =
     (let words = take 3 (py_split description_lower)
      in take 50 (py_lower (replace_char CHR '' '' CHR ''_''
                    (''com.rahl.'' @ py_join ''.'' words))))"

definition analyze_description :: "string \<Rightarrow> analysis" where
  "analyze_description description =
     (let description_lower = py_lower description;
          app = determine_app_type description_lower;
          feats = extract_features description_lower;
          pkg = generate_package_name description_lower
      in \<lparr>app_type = app, features = feats, package_name = pkg,
          detected_features = length feats\<rparr>)"

section \<open>Paths, files and project records\<close>

text \<open>\<open>os.path.join\<close> of \<open>posixpath\<close>: an absolute component discards what precedes it.\<close>

definition os_path_join2 :: "string \<Rightarrow> string \<Rightarrow> string" where
  "os_path_join2 a b =
     (if starts_with b ''/'' then b
      else if a = [] \<or> last a = CHR ''/'' then a @ b
      else a @ ''/'' @ b)"

definition os_path_join :: "string \<Rightarrow> string list \<Rightarrow> string" where
  "os_path_join a ps = foldl os_path_join2 a ps"

text \<open>
  The dictionary kept in \<open>metadata.json\<close>.  The keys \<open>apk_path\<close> and \<open>error\<close> are absent
  until they are assigned.
\<close>

record metadata =
  md_id :: string
  md_app_type :: string
  md_package_name :: string
  md_features :: "string list"
  md_description :: string
  md_created_at :: string
  md_status :: string
  md_progress :: nat
  md_apk_path :: "string option"
  md_error :: "string option"

text \<open>
  A file holds text (the bytes written, UTF-8) or a JSON dump of a metadata dictionary, or
  it is \<open>Partial\<close>: \<open>open(path, 'w')\<close> has truncated it and the data of the write has not
  reached it completely, so it is empty or holds a proper prefix of the data.  (A proper
  prefix of the dump of a dictionary is no JSON document, and neither is the empty file.)
  The file system maps the paths of the existing files to their contents; directories are
  not tracked.  The \<open>journal\<close> lists the changes of the file system in the order they
  happened, the truncation of a file and the completion of its write being two changes:
  the file system a concurrent request sees during a run is the initial one with a prefix
  of the journal applied.
\<close>

datatype file_data = Text string | Json metadata | Partial

record world =
  files :: "string \<rightharpoonup> file_data"
  journal :: "(string \<times> file_data) list"

fun replay :: "(string \<rightharpoonup> file_data) \<Rightarrow> (string \<times> file_data) list \<Rightarrow> (string \<rightharpoonup> file_data)" where
  "replay fs [] = fs"
| "replay fs ((p, c) # ws) = replay (fs(p \<mapsto> c)) ws"

text \<open>The statuses and progress values written to the record at path \<open>mp\<close>, in order.\<close>

fun committed :: "string \<Rightarrow> (string \<times> file_data) list \<Rightarrow> (string \<times> nat) list" where
  "committed mp [] = []"
| "committed mp ((p, Json md) # ws) =
     (if p = mp then (md_status md, md_progress md) # committed mp ws else committed mp ws)"
| "committed mp ((p, Text t) # ws) = committed mp ws"
| "committed mp ((p, Partial) # ws) = committed mp ws"

text \<open>
  The operations of the background task that can raise: the directory creations, the
  writes, the reads and the two \<open>print\<close> calls (a \<open>print\<close> raises when the standard output
  is closed or cannot encode the text).  Which ones raise, and with what message \<open>str(e)\<close>,
  is given by the environment; the exceptions are of class \<open>Exception\<close>, which the \<open>except\<close>
  clauses catch.  A write \<open>with open(path, 'w') as f: f.write(data)\<close> (or
  \<open>json.dump(data, f)\<close>) has two places to raise: \<open>faults\<close> says whether the \<open>open\<close> raises
  (or the directory creation that precedes it in the same function), which leaves the file
  as it was; \<open>dump_faults\<close> says whether writing the data or closing the file raises, which
  leaves the file truncated.
\<close>

datatype io_op =
    Makedirs_project
  | Write_metadata_building
  | Makedirs_skeleton
  | Write_manifest
  | Write_main_activity
  | Write_styles
  | Write_layout
  | Write_app_build_gradle
  | Write_project_build_gradle
  | Write_settings_gradle
  | Write_gradle_properties
  | Write_strings
  | Write_dummy_apk
  | Write_metadata_generated
  | Read_metadata
  | Write_metadata_completed
  | Print_success
  | Print_error
  | Handler_read_metadata
  | Handler_write_metadata

record env =
  PROJECTS_DIR :: string
  now_isoformat :: string
  faults :: "io_op \<Rightarrow> string option"
  dump_faults :: "io_op \<Rightarrow> string option"

text \<open>
  A computation runs on a world and returns normally (\<open>Inr\<close>) or raises an exception
  (\<open>Inl\<close>, with its message), together with the world it leaves.
\<close>

type_synonym 'a io = "world \<Rightarrow> (string + 'a) \<times> world"

definition return_io :: "'a \<Rightarrow> 'a io" where
  "return_io x w = (Inr x, w)"

definition bind_io :: "'a io \<Rightarrow> ('a \<Rightarrow> 'b io) \<Rightarrow> 'b io" where
  "bind_io m f w = (case m w of (Inl e, w') \<Rightarrow> (Inl e, w') | (Inr x, w') \<Rightarrow> f x w')"

definition os_makedirs :: "env \<Rightarrow> io_op \<Rightarrow> unit io" where
  "os_makedirs e opn w = (case faults e opn of Some msg \<Rightarrow> (Inl msg, w) | None \<Rightarrow> (Inr (), w))"

text \<open>\<open>print(...)\<close>: no effect on the files.\<close>

definition py_print :: "env \<Rightarrow> io_op \<Rightarrow> unit io" where
  "py_print e opn w = (case faults e opn of Some msg \<Rightarrow> (Inl msg, w) | None \<Rightarrow> (Inr (), w))"

text \<open>
  \<open>open(path, 'w')\<close>: the file exists afterwards and is truncated.  Then the body of the
  \<open>with\<close> statement and the closing of the file: the data is in the file.
\<close>

definition open_w :: "env \<Rightarrow> io_op \<Rightarrow> string \<Rightarrow> unit io" where
  "open_w e opn path w =
     (case faults e opn of
        Some msg \<Rightarrow> (Inl msg, w)
      | None \<Rightarrow> (Inr (), w\<lparr>files := (files w)(path \<mapsto> Partial),
                            journal := journal w @ [(path, Partial)]\<rparr>))"

definition dump_close :: "env \<Rightarrow> io_op \<Rightarrow> string \<Rightarrow> file_data \<Rightarrow> unit io" where
  "dump_close e opn path content w =
     (case dump_faults e opn of
        Some msg \<Rightarrow> (Inl msg, w)
      | None \<Rightarrow> (Inr (), w\<lparr>files := (files w)(path \<mapsto> content),
                            journal := journal w @ [(path, content)]\<rparr>))"

definition write_file :: "env \<Rightarrow> io_op \<Rightarrow> string \<Rightarrow> file_data \<Rightarrow> unit io" where
  "write_file e opn path content =
     bind_io (open_w e opn path) (\<lambda>_. dump_close e opn path content)"

definition os_path_exists :: "string \<Rightarrow> bool io" where
  "os_path_exists path w = (Inr (files w path \<noteq> None), w)"

text \<open>\<open>json.load\<close> of an opened file; the messages of the two library errors are abbreviated.\<close>

definition json_load :: "env \<Rightarrow> io_op \<Rightarrow> string \<Rightarrow> metadata io" where
  "json_load e opn path w =
     (case faults e opn of
        Some msg \<Rightarrow> (Inl msg, w)
      | None \<Rightarrow>
          (case files w path of
             None \<Rightarrow> (Inl ''FileNotFoundError'', w)
           | Some (Text t) \<Rightarrow> (Inl ''JSONDecodeError'', w)
           | Some Partial \<Rightarrow> (Inl ''JSONDecodeError'', w)
           | Some (Json md) \<Rightarrow> (Inr md, w)))"


section \<open>The scaffolding engine: \<open>RahlAIBuilder.generate_android_project\<close>\<close>

definition text_lines :: "string list \<Rightarrow> string" where
  "text_lines ls = py_join ''\<newline>'' ls"

definition manifest_content :: "string \<Rightarrow> string" where
  \<open>manifest_content package_name' = text_lines
    [''<?xml version="1.0" encoding="utf-8"?>'',
     ''<manifest xmlns:android="http://schemas.android.com/apk/res/android"'',
     ''    package="'' @ package_name' @ ''">'',
     ''    '',
     ''    <uses-permission android:name="android.permission.INTERNET" />'',
     ''    '',
     ''    <application'',
     ''        android:allowBackup="true"'',
     ''        android:icon="@mipmap/ic_launcher"'',
     ''        android:label="@string/app_name"'',
     ''        android:roundIcon="@mipmap/ic_launcher_round"'',
     ''        android:supportsRtl="true"'',
     ''        android:theme="@style/Theme.RahlApp">'',
     ''        '',
     ''        <activity'',
     ''            android:name=".MainActivity"'',
     ''            android:exported="true">'',
     ''            <intent-filter>'',
     ''                <action android:name="android.intent.action.MAIN" />'',
     ''                <category android:name="android.intent.category.LAUNCHER" />'',
     ''            </intent-filter>'',
     ''        </activity>'',
     ''    </application>'',
     ''</manifest>'']\<close>

definition activity_content_calculator :: "string \<Rightarrow> string" where
  \<open>activity_content_calculator package_name' = text_lines
    [''package '' @ package_name' @ '';'',
     '''',
     ''import android.os.Bundle;'',
     ''import android.view.View;'',
     ''import android.widget.Button;'',
     ''import android.widget.TextView;'',
     ''import androidx.appcompat.app.AppCompatActivity;'',
     '''',
     ''public class MainActivity extends AppCompatActivity {'',
     ''    '',
     ''    private TextView display;'',
     ''    private String currentNumber = "";'',
     ''    private String operation = "";'',
     ''    private double firstNumber = 0;'',
     ''    '',
     ''    @Override'',
     ''    protected void onCreate(Bundle savedInstanceState) {'',
     ''        super.onCreate(savedInstanceState);'',
     ''        setContentView(R.layout.activity_main);'',
     ''        '',
     ''        display = findViewById(R.id.display);'',
     ''        '',
     ''        // Number buttons'',
     ''        int[] numberButtons = {'',
     ''            R.id.btn_0, R.id.btn_1, R.id.btn_2, R.id.btn_3, R.id.btn_4,'',
     ''            R.id.btn_5, R.id.btn_6, R.id.btn_7, R.id.btn_8, R.id.btn_9'',
     ''        };'',
     ''        '',
     ''        for (int id : numberButtons) {'',
     ''            findViewById(id).setOnClickListener(v -> {'',
     ''                Button btn = (Button) v;'',
     ''                currentNumber += btn.getText().toString();'',
     ''                display.setText(currentNumber);'',
     ''            });'',
     ''        }'',
     ''        '',
     ''        // Operation buttons'',
     ''        findViewById(R.id.btn_add).setOnClickListener(v -> performOperation("+"));'',
     ''        findViewById(R.id.btn_subtract).setOnClickListener(v -> performOperation("-"));'',
     ''        findViewById(R.id.btn_multiply).setOnClickListener(v -> performOperation("*"));'',
     ''        findViewById(R.id.btn_divide).setOnClickListener(v -> performOperation("/"));'',
     ''        '',
     ''        findViewById(R.id.btn_equals).setOnClickListener(v -> calculateResult());'',
     ''        findViewById(R.id.btn_clear).setOnClickListener(v -> clearAll());'',
     ''    }'',
     ''    '',
     ''    private void performOperation(String op) {'',
     ''        if (!currentNumber.isEmpty()) {'',
     ''            firstNumber = Double.parseDouble(currentNumber);'',
     ''            operation = op;'',
     ''            currentNumber = "";'',
     ''            display.setText(op);'',
     ''        }'',
     ''    }'',
     ''    '',
     ''    private void calculateResult() {'',
     ''        if (!currentNumber.isEmpty() && !operation.isEmpty()) {'',
     ''            double secondNumber = Double.parseDouble(currentNumber);'',
     ''            double result = 0;'',
     ''            '',
     ''            switch (operation) {'',
     ''                case "+": result = firstNumber + secondNumber; break;'',
     ''                case "-": result = firstNumber - secondNumber; break;'',
     ''                case "*": result = firstNumber * secondNumber; break;'',
     ''                case "/": result = firstNumber / secondNumber; break;'',
     ''            }'',
     ''            '',
     ''            display.setText(String.valueOf(result));'',
     ''            currentNumber = String.valueOf(result);'',
     ''            operation = "";'',
     ''        }'',
     ''    }'',
     ''    '',
     ''    private void clearAll() {'',
     ''        currentNumber = "";'',
     ''        operation = "";'',
     ''        firstNumber = 0;'',
     ''        display.setText("0");'',
     ''    }'',
     ''}'']\<close>

definition activity_content_webview :: "string \<Rightarrow> string" where
  \<open>activity_content_webview package_name' = text_lines
    [''package '' @ package_name' @ '';'',
     '''',
     ''import android.os.Bundle;'',
     ''import android.webkit.WebView;'',
     ''import android.webkit.WebViewClient;'',
     ''import androidx.appcompat.app.AppCompatActivity;'',
     '''',
     ''public class MainActivity extends AppCompatActivity {'',
     ''    '',
     ''    private WebView webView;'',
     ''    '',
     ''    @Override'',
     ''    protected void onCreate(Bundle savedInstanceState) {'',
     ''        super.onCreate(savedInstanceState);'',
     ''        setContentView(R.layout.activity_main);'',
     ''        '',
     ''        webView = findViewById(R.id.webview);'',
     ''        webView.setWebViewClient(new WebViewClient());'',
     ''        webView.getSettings().setJavaScriptEnabled(true);'',
     ''        webView.loadUrl("https://github.com");'',
     ''    }'',
     ''    '',
     ''    @Override'',
     ''    public void onBackPressed() {'',
     ''        if (webView.canGoBack()) {'',
     ''            webView.goBack();'',
     ''        } else {'',
     ''            super.onBackPressed();'',
     ''        }'',
     ''    }'',
     ''}'']\<close>

definition activity_content_todo :: "string \<Rightarrow> string" where
  \<open>activity_content_todo package_name' = text_lines
    [''package '' @ package_name' @ '';'',
     '''',
     ''import android.os.Bundle;'',
     ''import android.view.View;'',
     ''import android.widget.Button;'',
     ''import android.widget.EditText;'',
     ''import android.widget.ListView;'',
     ''import androidx.appcompat.app.AppCompatActivity;'',
     ''import java.util.ArrayList;'',
     ''import java.util.List;'',
     '''',
     ''public class MainActivity extends AppCompatActivity {'',
     ''    '',
     ''    private List<String> todoItems;'',
     ''    private TodoAdapter adapter;'',
     ''    private EditText inputField;'',
     ''    '',
     ''    @Override'',
     ''    protected void onCreate(Bundle savedInstanceState) {'',
     ''        super.onCreate(savedInstanceState);'',
     ''        setContentView(R.layout.activity_main);'',
     ''        '',
     ''        todoItems = new ArrayList<>();'',
     ''        adapter = new TodoAdapter(this, todoItems);'',
     ''        '',
     ''        ListView listView = findViewById(R.id.todo_list);'',
     ''        listView.setAdapter(adapter);'',
     ''        '',
     ''        inputField = findViewById(R.id.todo_input);'',
     ''        Button addButton = findViewById(R.id.btn_add);'',
     ''        '',
     ''        addButton.setOnClickListener(v -> {'',
     ''            String newItem = inputField.getText().toString().trim();'',
     ''            if (!newItem.isEmpty()) {'',
     ''                todoItems.add(newItem);'',
     ''                adapter.notifyDataSetChanged();'',
     ''                inputField.setText("");'',
     ''            }'',
     ''        });'',
     ''        '',
     ''        listView.setOnItemClickListener((parent, view, position, id) -> {'',
     ''            todoItems.remove(position);'',
     ''            adapter.notifyDataSetChanged();'',
     ''        });'',
     ''    }'',
     ''}'',
     '''',
     ''class TodoAdapter extends android.widget.ArrayAdapter<String> {'',
     ''    '',
     ''    public TodoAdapter(MainActivity context, List<String> items) {'',
     ''        super(context, android.R.layout.simple_list_item_1, items);'',
     ''    }'',
     ''}'']\<close>

definition activity_content_default :: "string \<Rightarrow> string \<Rightarrow> string" where
  \<open>activity_content_default package_name' app_type' = text_lines
    [''package '' @ package_name' @ '';'',
     '''',
     ''import android.os.Bundle;'',
     ''import android.widget.TextView;'',
     ''import androidx.appcompat.app.AppCompatActivity;'',
     '''',
     ''public class MainActivity extends AppCompatActivity {'',
     ''    '',
     ''    @Override'',
     ''    protected void onCreate(Bundle savedInstanceState) {'',
     ''        super.onCreate(savedInstanceState);'',
     ''        setContentView(R.layout.activity_main);'',
     ''        '',
     ''        TextView textView = findViewById(R.id.textView);'',
     ''        textView.setText("Welcome to your '' @ app_type' @ '' app!");'',
     ''        '',
     ''        // Add feature-specific code'',
     ''        if (android.os.Build.VERSION.SDK_INT >= android.os.Build.VERSION_CODES.O) {'',
     ''            // Dark mode support'',
     ''            getDelegate().setLocalNightMode('',
     ''                android.content.res.Configuration.UI_MODE_NIGHT_YES);'',
     ''        }'',
     ''    }'',
     ''}'']\<close>

definition layout_content_calculator :: "string" where
  \<open>layout_content_calculator = text_lines
    [''<?xml version="1.0" encoding="utf-8"?>'',
     ''<LinearLayout xmlns:android="http://schemas.android.com/apk/res/android"'',
     ''    android:layout_width="match_parent"'',
     ''    android:layout_height="match_parent"'',
     ''    android:orientation="vertical"'',
     ''    android:padding="16dp">'',
     ''    '',
     ''    <TextView'',
     ''        android:id="@+id/display"'',
     ''        android:layout_width="match_parent"'',
     ''        android:layout_height="80dp"'',
     ''        android:text="0"'',
     ''        android:textSize="32sp"'',
     ''        android:gravity="end|center_vertical"'',
     ''        android:background="#f0f0f0"'',
     ''        android:padding="16dp" />'',
     ''    '',
     ''    <GridLayout'',
     ''        android:layout_width="match_parent"'',
     ''        android:layout_height="wrap_content"'',
     ''        android:columnCount="4"'',
     ''        android:rowCount="5">'',
     ''        '',
     ''        <!-- Row 1 -->'',
     ''        <Button android:id="@+id/btn_clear" android:text="C" style="@style/CalcButton" />'',
     ''        <Button android:id="@+id/btn_divide" android:text="/" style="@style/CalcButton" />'',
     ''        <Button android:id="@+id/btn_multiply" android:text="*" style="@style/CalcButton" />'',
     ''        <Button android:id="@+id/btn_backspace" android:text="'' @ [CHR 0xE2, CHR 0x8C, CHR 0xAB] @ ''" style="@style/CalcButton" />'',
     ''        '',
     ''        <!-- Row 2 -->'',
     ''        <Button android:id="@+id/btn_7" android:text="7" style="@style/CalcButton" />'',
     ''        <Button android:id="@+id/btn_8" android:text="8" style="@style/CalcButton" />'',
     ''        <Button android:id="@+id/btn_9" android:text="9" style="@style/CalcButton" />'',
     ''        <Button android:id="@+id/btn_subtract" android:text="-" style="@style/CalcButton" />'',
     ''        '',
     ''        <!-- Row 3 -->'',
     ''        <Button android:id="@+id/btn_4" android:text="4" style="@style/CalcButton" />'',
     ''        <Button android:id="@+id/btn_5" android:text="5" style="@style/CalcButton" />'',
     ''        <Button android:id="@+id/btn_6" android:text="6" style="@style/CalcButton" />'',
     ''        <Button android:id="@+id/btn_add" android:text="+" style="@style/CalcButton" />'',
     ''        '',
     ''        <!-- Row 4 -->'',
     ''        <Button android:id="@+id/btn_1" android:text="1" style="@style/CalcButton" />'',
     ''        <Button android:id="@+id/btn_2" android:text="2" style="@style/CalcButton" />'',
     ''        <Button android:id="@+id/btn_3" android:text="3" style="@style/CalcButton" />'',
     ''        <Button android:id="@+id/btn_equals" android:text="=" '',
     ''            android:layout_rowSpan="2" style="@style/CalcButton" />'',
     ''        '',
     ''        <!-- Row 5 -->'',
     ''        <Button android:id="@+id/btn_0" android:text="0" '',
     ''            android:layout_columnSpan="2" style="@style/CalcButton" />'',
     ''        <Button android:id="@+id/btn_dot" android:text="." style="@style/CalcButton" />'',
     ''        '',
     ''    </GridLayout>'',
     ''</LinearLayout>'']\<close>

definition styles_content :: "string" where
  \<open>styles_content = text_lines
    [''<?xml version="1.0" encoding="utf-8"?>'',
     ''<resources>'',
     ''    <style name="CalcButton">'',
     ''        <item name="android:layout_width">0dp</item>'',
     ''        <item name="android:layout_height">80dp</item>'',
     ''        <item name="android:layout_columnWeight">1</item>'',
     ''        <item name="android:layout_rowWeight">1</item>'',
     ''        <item name="android:textSize">24sp</item>'',
     ''        <item name="android:backgroundTint">#6200EE</item>'',
     ''        <item name="android:textColor">#FFFFFF</item>'',
     ''    </style>'',
     ''</resources>'']\<close>

definition layout_content_webview :: "string" where
  \<open>layout_content_webview = text_lines
    [''<?xml version="1.0" encoding="utf-8"?>'',
     ''<LinearLayout xmlns:android="http://schemas.android.com/apk/res/android"'',
     ''    android:layout_width="match_parent"'',
     ''    android:layout_height="match_parent"'',
     ''    android:orientation="vertical">'',
     ''    '',
     ''    <WebView'',
     ''        android:id="@+id/webview"'',
     ''        android:layout_width="match_parent"'',
     ''        android:layout_height="match_parent" />'',
     ''    '',
     ''</LinearLayout>'']\<close>

definition layout_content_todo :: "string" where
  \<open>layout_content_todo = text_lines
    [''<?xml version="1.0" encoding="utf-8"?>'',
     ''<LinearLayout xmlns:android="http://schemas.android.com/apk/res/android"'',
     ''    android:layout_width="match_parent"'',
     ''    android:layout_height="match_parent"'',
     ''    android:orientation="vertical"'',
     ''    android:padding="16dp">'',
     ''    '',
     ''    <TextView'',
     ''        android:layout_width="match_parent"'',
     ''        android:layout_height="wrap_content"'',
     ''        android:text="Todo List"'',
     ''        android:textSize="24sp"'',
     ''        android:textStyle="bold"'',
     ''        android:gravity="center"'',
     ''        android:padding="16dp" />'',
     ''    '',
     ''    <LinearLayout'',
     ''        android:layout_width="match_parent"'',
     ''        android:layout_height="wrap_content"'',
     ''        android:orientation="horizontal">'',
     ''        '',
     ''        <EditText'',
     ''            android:id="@+id/todo_input"'',
     ''            android:layout_width="0dp"'',
     ''            android:layout_height="wrap_content"'',
     ''            android:layout_weight="1"'',
     ''            android:hint="Enter todo item"'',
     ''            android:padding="12dp" />'',
     ''        '',
     ''        <Button'',
     ''            android:id="@+id/btn_add"'',
     ''            android:layout_width="wrap_content"'',
     ''            android:layout_height="wrap_content"'',
     ''            android:text="Add"'',
     ''            android:padding="12dp" />'',
     ''    </LinearLayout>'',
     ''    '',
     ''    <ListView'',
     ''        android:id="@+id/todo_list"'',
     ''        android:layout_width="match_parent"'',
     ''        android:layout_height="match_parent"'',
     ''        android:padding="8dp" />'',
     ''    '',
     ''</LinearLayout>'']\<close>

definition layout_content_default :: "string" where
  \<open>layout_content_default = text_lines
    [''<?xml version="1.0" encoding="utf-8"?>'',
     ''<LinearLayout xmlns:android="http://schemas.android.com/apk/res/android"'',
     ''    android:layout_width="match_parent"'',
     ''    android:layout_height="match_parent"'',
     ''    android:orientation="vertical"'',
     ''    android:gravity="center"'',
     ''    android:padding="24dp">'',
     ''    '',
     ''    <TextView'',
     ''        android:id="@+id/textView"'',
     ''        android:layout_width="wrap_content"'',
     ''        android:layout_height="wrap_content"'',
     ''        android:text="Hello Rahl AI!"'',
     ''        android:textSize="24sp"'',
     ''        android:textStyle="bold" />'',
     ''    '',
     ''    <TextView'',
     ''        android:layout_width="wrap_content"'',
     ''        android:layout_height="wrap_content"'',
     ''        android:text="Your app is ready!"'',
     ''        android:textSize="18sp"'',
     ''        android:layout_marginTop="16dp" />'',
     ''    '',
     ''</LinearLayout>'']\<close>

definition app_build_gradle :: "string \<Rightarrow> string" where
  \<open>app_build_gradle package_name' = text_lines
    [''plugins {'',
     ''    id 'com.android.application'' @ [CHR 0x27],
     ''}'',
     '''',
     ''android {'',
     ''    namespace '' @ [CHR 0x27] @ package_name' @ [CHR 0x27],
     ''    compileSdk 34'',
     ''    '',
     ''    defaultConfig {'',
     ''        applicationId "'' @ package_name' @ ''"'',
     ''        minSdk 21'',
     ''        targetSdk 34'',
     ''        versionCode 1'',
     ''        versionName "1.0"'',
     ''    }'',
     ''    '',
     ''    buildTypes {'',
     ''        release {'',
     ''            minifyEnabled false'',
     ''            proguardFiles getDefaultProguardFile('proguard-android-optimize.txt'), 'proguard-rules.pro'' @ [CHR 0x27],
     ''        }'',
     ''    }'',
     ''    '',
     ''    compileOptions {'',
     ''        sourceCompatibility JavaVersion.VERSION_1_8'',
     ''        targetCompatibility JavaVersion.VERSION_1_8'',
     ''    }'',
     ''}'',
     '''',
     ''dependencies {'',
     ''    implementation 'androidx.appcompat:appcompat:1.6.1'' @ [CHR 0x27],
     ''    implementation 'com.google.android.material:material:1.10.0'' @ [CHR 0x27],
     ''    implementation 'androidx.constraintlayout:constraintlayout:2.1.4'' @ [CHR 0x27],
     ''}'']\<close>

definition project_build_gradle :: "string" where
  \<open>project_build_gradle = text_lines
    [''plugins {'',
     ''    id 'com.android.application' version '8.1.0' apply false'',
     ''}'']\<close>

definition settings_gradle :: "string" where
  \<open>settings_gradle = text_lines
    [''pluginManagement {'',
     ''    repositories {'',
     ''        google()'',
     ''        mavenCentral()'',
     ''        gradlePluginPortal()'',
     ''    }'',
     ''}'',
     ''dependencyResolutionManagement {'',
     ''    repositoriesMode.set(RepositoriesMode.FAIL_ON_PROJECT_REPOS)'',
     ''    repositories {'',
     ''        google()'',
     ''        mavenCentral()'',
     ''    }'',
     ''}'',
     ''rootProject.name = "RahlApp"'',
     ''include ':app'' @ [CHR 0x27]]\<close>

definition gradle_props :: "string" where
  \<open>gradle_props = text_lines
    [''org.gradle.jvmargs=-Xmx2048m -Dfile.encoding=UTF-8'',
     ''android.useAndroidX=true'',
     ''android.enableJetifier=true'']\<close>

definition strings_content :: "string \<Rightarrow> string" where
  \<open>strings_content app_name = text_lines
    [''<?xml version="1.0" encoding="utf-8"?>'',
     ''<resources>'',
     ''    <string name="app_name">'' @ app_name @ ''</string>'',
     ''    <string name="hello_world">Hello from Rahl AI!</string>'',
     ''</resources>'']\<close>

definition dummy_content :: "string" where
  \<open>dummy_content = text_lines
    [''Rahl AI - Generated APK'',
     ''========================'',
     ''This is a demo APK generated by Rahl AI Builder.'',
     '''',
     ''For a real APK, you need to:'',
     ''1. Install Android SDK'',
     ''2. Set up Gradle'',
     ''3. Build with: ./gradlew assembleDebug'',
     '''',
     ''But for this demo, we're showing the process!'',
     '''',
     ''Your app has been successfully analyzed and the code generated.'',
     '''',
     ''Check the project folder for complete Android source code.'']\<close>

definition generate_manifest :: "env \<Rightarrow> string \<Rightarrow> string \<Rightarrow> string \<Rightarrow> unit io" where
  "generate_manifest e project_path package_name' app_type' =
     (let manifest_path =
            os_path_join project_path [''app'', ''src'', ''main'', ''AndroidManifest.xml'']
      in write_file e Write_manifest manifest_path (Text (manifest_content package_name')))"

definition generate_main_activity ::
    "env \<Rightarrow> string \<Rightarrow> string \<Rightarrow> string \<Rightarrow> string list \<Rightarrow> unit io" where
  "generate_main_activity e project_path package_name' app_type' features' =
     (let package_path = replace_char CHR ''.'' CHR ''/'' package_name';
          java_dir = os_path_join project_path [''app'', ''src'', ''main'', ''java'', package_path];
          activity_content =
            (if app_type' = ''calculator'' then activity_content_calculator package_name'
             else if app_type' = ''webview'' then activity_content_webview package_name'
             else if app_type' = ''todo'' then activity_content_todo package_name'
             else activity_content_default package_name' app_type');
          activity_path = os_path_join java_dir [''MainActivity.java'']
      in write_file e Write_main_activity activity_path (Text activity_content))"

definition generate_layouts :: "env \<Rightarrow> string \<Rightarrow> string \<Rightarrow> unit io" where
  "generate_layouts e project_path app_type' =
     (let layout_dir = os_path_join project_path [''app'', ''src'', ''main'', ''res'', ''layout''];
          layout_path = os_path_join layout_dir [''activity_main.xml'']
      in if app_type' = ''calculator'' then
           (let styles_dir = os_path_join project_path [''app'', ''src'', ''main'', ''res'', ''values''];
                styles_path = os_path_join styles_dir [''styles.xml'']
            in bind_io (write_file e Write_styles styles_path (Text styles_content)) (\<lambda>_.
               write_file e Write_layout layout_path (Text layout_content_calculator)))
         else if app_type' = ''webview'' then
           write_file e Write_layout layout_path (Text layout_content_webview)
         else if app_type' = ''todo'' then
           write_file e Write_layout layout_path (Text layout_content_todo)
         else write_file e Write_layout layout_path (Text layout_content_default))"

definition generate_build_gradle :: "env \<Rightarrow> string \<Rightarrow> string \<Rightarrow> unit io" where
  "generate_build_gradle e project_path package_name' =
     (let app_build_path = os_path_join project_path [''app'', ''build.gradle''];
          project_build_path = os_path_join project_path [''build.gradle''];
          settings_path = os_path_join project_path [''settings.gradle''];
          props_path = os_path_join project_path [''gradle.properties'']
      in bind_io (write_file e Write_app_build_gradle app_build_path
                    (Text (app_build_gradle package_name'))) (\<lambda>_.
         bind_io (write_file e Write_project_build_gradle project_build_path
                    (Text project_build_gradle)) (\<lambda>_.
         bind_io (write_file e Write_settings_gradle settings_path (Text settings_gradle)) (\<lambda>_.
         write_file e Write_gradle_properties props_path (Text gradle_props)))))"

definition app_names :: "(string \<times> string) list" where
  "app_names =
    [(''calculator'', ''Rahl Calculator''), (''webview'', ''Rahl Browser''),
     (''todo'', ''Rahl Todo''), (''notes'', ''Rahl Notes''),
     (''weather'', ''Rahl Weather''), (''game'', ''Rahl Game'')]"

definition generate_strings :: "env \<Rightarrow> string \<Rightarrow> string \<Rightarrow> unit io" where
  "generate_strings e project_path app_type' =
     (let strings_dir = os_path_join project_path [''app'', ''src'', ''main'', ''res'', ''values''];
          app_name = (case map_of app_names app_type' of Some n \<Rightarrow> n | None \<Rightarrow> ''Rahl App'');
          strings_path = os_path_join strings_dir [''strings.xml'']
      in write_file e Write_strings strings_path (Text (strings_content app_name)))"

definition create_dummy_apk :: "env \<Rightarrow> string \<Rightarrow> unit io" where
  "create_dummy_apk e project_path =
     (let apk_dir = os_path_join project_path [''app'', ''build'', ''outputs'', ''apk'', ''debug''];
          dummy_apk_path = os_path_join apk_dir [''app-debug.apk'']
      in write_file e Write_dummy_apk dummy_apk_path (Text dummy_content))"

definition generate_android_project ::
    "env \<Rightarrow> string \<Rightarrow> string \<Rightarrow> string \<Rightarrow> string list \<Rightarrow> unit io" where
  "generate_android_project e project_path app_type' package_name' features' =
     bind_io (os_makedirs e Makedirs_skeleton) (\<lambda>_.
     bind_io (generate_manifest e project_path package_name' app_type') (\<lambda>_.
     bind_io (generate_main_activity e project_path package_name' app_type' features') (\<lambda>_.
     bind_io (generate_layouts e project_path app_type') (\<lambda>_.
     bind_io (generate_build_gradle e project_path package_name') (\<lambda>_.
     bind_io (generate_strings e project_path app_type') (\<lambda>_.
     create_dummy_apk e project_path))))))"


section \<open>The build job: \<open>create_project\<close> and \<open>build_project_thread\<close>\<close>

definition create_project ::
    "env \<Rightarrow> string \<Rightarrow> string \<Rightarrow> string \<Rightarrow> string list \<Rightarrow> string \<Rightarrow> string io" where
  "create_project e project_id app_type' package_name' features' description =
     (let project_path = os_path_join (PROJECTS_DIR e) [project_id];
          metadata = \<lparr>md_id = project_id, md_app_type = app_type',
                      md_package_name = package_name', md_features = features',
                      md_description = description, md_created_at = now_isoformat e,
                      md_status = ''building'', md_progress = 0,
                      md_apk_path = None, md_error = None\<rparr>;
          metadata_path = os_path_join project_path [''metadata.json'']
      in bind_io (os_makedirs e Makedirs_project) (\<lambda>_.
         bind_io (write_file e Write_metadata_building metadata_path (Json metadata)) (\<lambda>_.
         bind_io (generate_android_project e project_path app_type' package_name' features') (\<lambda>_.
         bind_io (write_file e Write_metadata_generated metadata_path
                    (Json (metadata\<lparr>md_status := ''generated'', md_progress := 50\<rparr>))) (\<lambda>_.
         return_io project_path)))))"

text \<open>
  The body of the \<open>try\<close> block of \<open>build_project_thread\<close>; the \<open>print\<close> of the success
  message is its last statement.
\<close>

definition build_project_try :: "env \<Rightarrow> string \<Rightarrow> analysis \<Rightarrow> unit io" where
  "build_project_try e project_id analysis' =
     bind_io (create_project e project_id (app_type analysis') (package_name analysis')
                (features analysis') []) (\<lambda>project_path.
     (let metadata_path = os_path_join project_path [''metadata.json'']
      in bind_io (os_path_exists metadata_path) (\<lambda>ex.
         bind_io
           (if ex then
              bind_io (json_load e Read_metadata metadata_path) (\<lambda>metadata.
              write_file e Write_metadata_completed metadata_path
                (Json (metadata\<lparr>md_status := ''completed'', md_progress := 100,
                         md_apk_path := Some (os_path_join project_path
                           [''app'', ''build'', ''outputs'', ''apk'', ''debug'', ''app-debug.apk''])\<rparr>)))
            else return_io ()) (\<lambda>_.
         py_print e Print_success))))"

text \<open>
  The \<open>except Exception as e\<close> block, for the message \<open>str(e)\<close>; the \<open>print\<close> of the error
  message is its first statement.
\<close>

definition build_project_except :: "env \<Rightarrow> string \<Rightarrow> string \<Rightarrow> unit io" where
  "build_project_except e project_id msg =
     bind_io (py_print e Print_error) (\<lambda>_.
     (let project_path = os_path_join (PROJECTS_DIR e) [project_id];
          metadata_path = os_path_join project_path [''metadata.json'']
      in bind_io (os_path_exists metadata_path) (\<lambda>ex.
         if ex then
           bind_io (json_load e Handler_read_metadata metadata_path) (\<lambda>metadata.
           write_file e Handler_write_metadata metadata_path
             (Json (metadata\<lparr>md_status := ''error'', md_error := Some msg\<rparr>)))
         else return_io ())))"

text \<open>
  The thread function.  \<open>Inr ()\<close>: it returns; \<open>Inl msg\<close>: an exception raised inside the
  \<open>except\<close> block leaves it.
\<close>

definition build_project_thread :: "env \<Rightarrow> string \<Rightarrow> analysis \<Rightarrow> unit io" where
  "build_project_thread e project_id analysis' w =
     (case build_project_try e project_id analysis' w of
        (Inr u, w') \<Rightarrow> (Inr (), w')
      | (Inl msg, w') \<Rightarrow> build_project_except e project_id msg w')"


section \<open>The request handlers\<close>

text \<open>
  \<open>POST /api/build\<close>.  The request body is \<open>None\<close> when it is empty or has no
  \<open>description\<close>, else the description string; \<open>uuid4\<close> is the text of the fresh UUID.
  The handler reads and writes no file.  The second component of the result holds the
  arguments of the background thread it starts, if it starts one.
\<close>

datatype build_response = Build_400 string | Build_200 string analysis

definition build_apk_route ::
    "string option \<Rightarrow> string \<Rightarrow> build_response \<times> (string \<times> analysis) option" where
  "build_apk_route data uuid4 =
     (case data of
        None \<Rightarrow> (Build_400 ''Missing description'', None)
      | Some d \<Rightarrow>
          (let description = py_strip d
           in if length description < 5 then (Build_400 ''Description too short'', None)
              else (let project_id = take 8 uuid4;
                        analysis' = analyze_description description
                    in (Build_200 project_id analysis', Some (project_id, analysis')))))"

text \<open>
  \<open>GET /api/project/<project_id>\<close>: 404, or the record with the artifact file found at
  its \<open>apk_path\<close> (which gives \<open>apk_ready\<close> and \<open>apk_size\<close>), or 500 when the record cannot be
  loaded.  The handlers read the file system in the state it has when they run.
\<close>

datatype status_response = Status_404 | Status_200 metadata "file_data option" | Status_500

definition get_project_status :: "env \<Rightarrow> (string \<rightharpoonup> file_data) \<Rightarrow> string \<Rightarrow> status_response" where
  "get_project_status e fs project_id =
     (let project_path = os_path_join (PROJECTS_DIR e) [project_id];
          metadata_path = os_path_join project_path [''metadata.json'']
      in case fs metadata_path of
           None \<Rightarrow> Status_404
         | Some (Text t) \<Rightarrow> Status_500
         | Some Partial \<Rightarrow> Status_500
         | Some (Json metadata) \<Rightarrow>
             (case md_apk_path metadata of
                None \<Rightarrow> Status_200 metadata None
              | Some apk_path \<Rightarrow>
                  if apk_path \<noteq> [] \<and> fs apk_path \<noteq> None
                  then Status_200 metadata (fs apk_path)
                  else Status_200 metadata None))"

text \<open>\<open>GET /api/download/<project_id>\<close>: the file sent, or 404, or 500.\<close>

datatype download_response = Send_file string file_data | Download_404 | Download_500

definition download_apk :: "env \<Rightarrow> (string \<rightharpoonup> file_data) \<Rightarrow> string \<Rightarrow> download_response" where
  "download_apk e fs project_id =
     (let project_path = os_path_join (PROJECTS_DIR e) [project_id];
          apk_path = os_path_join project_path
                       [''app'', ''build'', ''outputs'', ''apk'', ''debug'', ''app-debug.apk'']
      in case fs apk_path of
           Some f \<Rightarrow> Send_file apk_path f
         | None \<Rightarrow>
             (let metadata_path = os_path_join project_path [''metadata.json'']
              in case fs metadata_path of
                   None \<Rightarrow> Download_404
                 | Some (Text t) \<Rightarrow> Download_500
                 | Some Partial \<Rightarrow> Download_500
                 | Some (Json metadata) \<Rightarrow>
                     (case md_apk_path metadata of
                        None \<Rightarrow> Download_404
                      | Some fallback_apk \<Rightarrow>
                          if fallback_apk \<noteq> [] then
                            (case fs fallback_apk of
                               Some f \<Rightarrow> Send_file fallback_apk f
                             | None \<Rightarrow> Download_404)
                          else Download_404)))"


section \<open>The build invoker: \<open>AndroidAPKBuilder.build_apk\<close>\<close>





text \<open>
  What the process meets outside itself during one call: whether \<open>os.getcwd\<close> and the
  \<open>os.chdir\<close> into the project raise (and with what message), whether \<open>./gradlew\<close> exists,
  what the subprocess does, whether the \<open>os.chdir\<close> back to the prior directory raises,
  in the \<open>try\<close> block and in the \<open>finally\<close> clause, what \<open>glob.glob\<close> and \<open>os.walk\<close> find
  afterwards, what \<open>os.path.getsize\<close> returns, and which \<open>print\<close> calls raise.
\<close>







































section \<open>Notions used to state and prove the properties of the build job\<close>

definition project_path_of :: "env \<Rightarrow> string \<Rightarrow> string" where
  "project_path_of e project_id = os_path_join (PROJECTS_DIR e) [project_id]"

definition metadata_path_of :: "env \<Rightarrow> string \<Rightarrow> string" where
  "metadata_path_of e project_id = os_path_join (project_path_of e project_id) [''metadata.json'']"

definition apk_path_of :: "env \<Rightarrow> string \<Rightarrow> string" where
  "apk_path_of e project_id =
     os_path_join (project_path_of e project_id)
       [''app'', ''build'', ''outputs'', ''apk'', ''debug'', ''app-debug.apk'']"

text \<open>The record \<open>create_project\<close> writes first.\<close>

definition initial_record :: "env \<Rightarrow> string \<Rightarrow> analysis \<Rightarrow> metadata" where
  "initial_record e project_id a =
     \<lparr>md_id = project_id, md_app_type = app_type a, md_package_name = package_name a,
      md_features = features a, md_description = [], md_created_at = now_isoformat e,
      md_status = ''building'', md_progress = 0, md_apk_path = None, md_error = None\<rparr>"

text \<open>The \<open>try\<close> block after the first write of the record.\<close>

definition try_rest :: "env \<Rightarrow> string \<Rightarrow> analysis \<Rightarrow> unit io" where
  "try_rest e project_id a =
     (let project_path = os_path_join (PROJECTS_DIR e) [project_id];
          metadata_path = os_path_join project_path [''metadata.json'']
      in bind_io (generate_android_project e project_path (app_type a) (package_name a)
                    (features a)) (\<lambda>_.
         bind_io (write_file e Write_metadata_generated metadata_path
                    (Json ((initial_record e project_id a)
                             \<lparr>md_status := ''generated'', md_progress := 50\<rparr>))) (\<lambda>_.
         bind_io (os_path_exists metadata_path) (\<lambda>ex.
         bind_io
           (if ex then
              bind_io (json_load e Read_metadata metadata_path) (\<lambda>metadata.
              write_file e Write_metadata_completed metadata_path
                (Json (metadata\<lparr>md_status := ''completed'', md_progress := 100,
                         md_apk_path := Some (os_path_join project_path
                           [''app'', ''build'', ''outputs'', ''apk'', ''debug'', ''app-debug.apk''])\<rparr>)))
            else return_io ()) (\<lambda>_.
         py_print e Print_success)))))"

text \<open>
  \<open>try: m except Exception as e: h(str(e))\<close>, as \<open>build_project_thread\<close> is built from its
  two blocks.
\<close>

definition try_except :: "unit io \<Rightarrow> (string \<Rightarrow> unit io) \<Rightarrow> unit io" where
  "try_except m h w =
     (case m w of (Inr u, w') \<Rightarrow> (Inr (), w') | (Inl msg, w') \<Rightarrow> h msg w')"

text \<open>
  A change the build job of the record at \<open>mp\<close> may make: a JSON dump to \<open>mp\<close>, text to
  another path, or the truncation of a file.
\<close>

fun admissible :: "string \<Rightarrow> string \<times> file_data \<Rightarrow> bool" where
  "admissible mp (p, Json md) = (p = mp)"
| "admissible mp (p, Text t) = (p \<noteq> mp)"
| "admissible mp (p, Partial) = True"

text \<open>
  A change at a path other than \<open>mp\<close> that puts no record there: what the scaffolding
  performs.
\<close>

fun text_elsewhere :: "string \<Rightarrow> string \<times> file_data \<Rightarrow> bool" where
  "text_elsewhere mp (p, Json md) = False"
| "text_elsewhere mp (p, Text t) = (p \<noteq> mp)"
| "text_elsewhere mp (p, Partial) = (p \<noteq> mp)"

text \<open>
  The effect of a computation is a list of writes of the kind \<open>A\<close>, applied and journalled.
\<close>

definition writes_only :: "(string \<times> file_data \<Rightarrow> bool) \<Rightarrow> 'a io \<Rightarrow> bool" where
  "writes_only A m =
     (\<forall>w. \<exists>es. list_all A es \<and>
            snd (m w) = w\<lparr>files := replay (files w) es, journal := journal w @ es\<rparr>)"

text \<open>
  The creation of the project directory or the opening of the record for its first write
  raises; one of these or the first dump of the record raises; a later dump of the record
  in the \<open>try\<close> block raises; some operation of the \<open>except\<close> block raises.
\<close>

definition open_fault :: "env \<Rightarrow> bool" where
  "open_fault e \<longleftrightarrow>
     faults e Makedirs_project \<noteq> None \<or> faults e Write_metadata_building \<noteq> None"

definition early_fault :: "env \<Rightarrow> bool" where
  "early_fault e \<longleftrightarrow>
     faults e Makedirs_project \<noteq> None \<or> faults e Write_metadata_building \<noteq> None
     \<or> dump_faults e Write_metadata_building \<noteq> None"

definition rewrite_fault :: "env \<Rightarrow> bool" where
  "rewrite_fault e \<longleftrightarrow>
     dump_faults e Write_metadata_generated \<noteq> None
     \<or> dump_faults e Write_metadata_completed \<noteq> None"

text \<open>The message \<open>msg\<close> is that of an operation the environment lets raise.\<close>

definition fault_msg :: "env \<Rightarrow> string \<Rightarrow> bool" where
  "fault_msg e msg \<longleftrightarrow> (\<exists>opn. faults e opn = Some msg \<or> dump_faults e opn = Some msg)"

definition handler_fault :: "env \<Rightarrow> bool" where
  "handler_fault e \<longleftrightarrow>
     faults e Print_error \<noteq> None \<or> faults e Handler_read_metadata \<noteq> None
     \<or> faults e Handler_write_metadata \<noteq> None \<or> dump_faults e Handler_write_metadata \<noteq> None"

text \<open>The message \<open>msg\<close> is that of an operation other than a \<open>print\<close> that raises.\<close>

definition file_fault :: "env \<Rightarrow> string \<Rightarrow> bool" where
  "file_fault e msg \<longleftrightarrow>
     (\<exists>opn. opn \<noteq> Print_success \<and> opn \<noteq> Print_error
            \<and> (faults e opn = Some msg \<or> dump_faults e opn = Some msg))"

text \<open>
  A triple with two postconditions: one for the normal return, one for an exception.
\<close>

definition hoare ::
    "(world \<Rightarrow> bool) \<Rightarrow> 'a io \<Rightarrow> ('a \<Rightarrow> world \<Rightarrow> bool) \<Rightarrow> (string \<Rightarrow> world \<Rightarrow> bool) \<Rightarrow> bool" where
  "hoare P m Q E =
     (\<forall>w. P w \<longrightarrow> (case m w of (Inl msg, w') \<Rightarrow> E msg w' | (Inr x, w') \<Rightarrow> Q x w'))"

text \<open>The stages of the record at \<open>mp\<close>, with the stub artifact at \<open>ap\<close>.\<close>

definition stage_none :: "string \<Rightarrow> world \<Rightarrow> bool" where
  "stage_none mp w \<longleftrightarrow> committed mp (journal w) = [] \<and> files w mp = None"

definition stage_building :: "string \<Rightarrow> metadata \<Rightarrow> world \<Rightarrow> bool" where
  "stage_building mp md0 w \<longleftrightarrow>
     committed mp (journal w) = [(''building'', 0)] \<and> files w mp = Some (Json md0)"

definition stage_generated :: "string \<Rightarrow> string \<Rightarrow> metadata \<Rightarrow> world \<Rightarrow> bool" where
  "stage_generated mp ap md0 w \<longleftrightarrow>
     committed mp (journal w) = [(''building'', 0), (''generated'', 50)]
     \<and> files w mp = Some (Json (md0\<lparr>md_status := ''generated'', md_progress := 50\<rparr>))
     \<and> files w ap = Some (Text dummy_content)"

definition stage_completed :: "string \<Rightarrow> string \<Rightarrow> metadata \<Rightarrow> world \<Rightarrow> bool" where
  "stage_completed mp ap md0 w \<longleftrightarrow>
     committed mp (journal w) = [(''building'', 0), (''generated'', 50), (''completed'', 100)]
     \<and> files w mp = Some (Json (md0\<lparr>md_status := ''completed'', md_progress := 100,
                                       md_apk_path := Some ap\<rparr>))
     \<and> files w ap = Some (Text dummy_content)"

definition stage_error_building :: "string \<Rightarrow> metadata \<Rightarrow> string \<Rightarrow> world \<Rightarrow> bool" where
  "stage_error_building mp md0 msg w \<longleftrightarrow>
     committed mp (journal w) = [(''building'', 0), (''error'', 0)]
     \<and> files w mp = Some (Json (md0\<lparr>md_status := ''error'', md_error := Some msg\<rparr>))"

definition stage_error_generated :: "string \<Rightarrow> metadata \<Rightarrow> string \<Rightarrow> world \<Rightarrow> bool" where
  "stage_error_generated mp md0 msg w \<longleftrightarrow>
     committed mp (journal w) = [(''building'', 0), (''generated'', 50), (''error'', 50)]
     \<and> files w mp = Some (Json (md0\<lparr>md_status := ''error'', md_progress := 50,
                                       md_error := Some msg\<rparr>))"

definition stage_error_completed :: "string \<Rightarrow> string \<Rightarrow> metadata \<Rightarrow> string \<Rightarrow> world \<Rightarrow> bool" where
  "stage_error_completed mp ap md0 msg w \<longleftrightarrow>
     committed mp (journal w)
       = [(''building'', 0), (''generated'', 50), (''completed'', 100), (''error'', 100)]
     \<and> files w mp = Some (Json (md0\<lparr>md_status := ''error'', md_progress := 100,
                                       md_apk_path := Some ap, md_error := Some msg\<rparr>))"

text \<open>
  The record file is left truncated by a write that raised, after the statuses \<open>cs\<close> were
  committed.
\<close>

definition stage_torn :: "string \<Rightarrow> (string \<times> nat) list \<Rightarrow> world \<Rightarrow> bool" where
  "stage_torn mp cs w \<longleftrightarrow> committed mp (journal w) = cs \<and> files w mp = Some Partial"

text \<open>
  The state of the record file, as a status query sees it, with the first \<open>n\<close> changes of
  the journal \<open>j\<close> applied to the files \<open>fs\<close>.
\<close>

definition status_at ::
    "env \<Rightarrow> (string \<rightharpoonup> file_data) \<Rightarrow> (string \<times> file_data) list \<Rightarrow> string \<Rightarrow> nat
       \<Rightarrow> status_response" where
  "status_at e fs j project_id n = get_project_status e (replay fs (take n j)) project_id"



text \<open>The status a status query reports, if it reports a record.\<close>

definition status_of :: "status_response \<Rightarrow> string option" where
  "status_of r = (case r of Status_200 md f \<Rightarrow> Some (md_status md) | _ \<Rightarrow> None)"

text \<open>Concrete environments and a world with no file, for the examples.\<close>

definition no_fault :: "io_op \<Rightarrow> string option" where
  "no_fault opn = None"

definition mkdir_fault :: "io_op \<Rightarrow> string option" where
  "mkdir_fault opn = (if opn = Makedirs_project then Some ''[Errno 28] No space left on device'' else None)"

definition manifest_fault :: "io_op \<Rightarrow> string option" where
  "manifest_fault opn = (if opn = Write_manifest then Some ''[Errno 28] No space left on device'' else None)"

text \<open>A standard output that cannot encode the symbols of the two messages.\<close>

definition print_fault :: "io_op \<Rightarrow> string option" where
  "print_fault opn =
     (if opn = Print_success \<or> opn = Print_error then Some ''UnicodeEncodeError'' else None)"

text \<open>A standard output that fails once, at the success message.\<close>

definition print_success_fault :: "io_op \<Rightarrow> string option" where
  "print_success_fault opn = (if opn = Print_success then Some ''[Errno 32] Broken pipe'' else None)"

text \<open>The manifest cannot be written, and the standard output cannot encode the symbols.\<close>

definition manifest_print_fault :: "io_op \<Rightarrow> string option" where
  "manifest_print_fault opn =
     (if opn = Write_manifest then Some ''[Errno 28] No space left on device''
      else if opn = Print_success \<or> opn = Print_error then Some ''UnicodeEncodeError''
      else None)"

definition env_ok :: env where
  "env_ok = \<lparr>PROJECTS_DIR = ''projects'', now_isoformat = ''2024-01-01T00:00:00'',
             faults = no_fault, dump_faults = no_fault\<rparr>"

definition env_mkdir_fails :: env where
  "env_mkdir_fails = \<lparr>PROJECTS_DIR = ''projects'', now_isoformat = ''2024-01-01T00:00:00'',
             faults = mkdir_fault, dump_faults = no_fault\<rparr>"

definition env_manifest_fails :: env where
  "env_manifest_fails = \<lparr>PROJECTS_DIR = ''projects'', now_isoformat = ''2024-01-01T00:00:00'',
             faults = manifest_fault, dump_faults = no_fault\<rparr>"

definition env_print_success_fails :: env where
  "env_print_success_fails =
     \<lparr>PROJECTS_DIR = ''projects'', now_isoformat = ''2024-01-01T00:00:00'',
      faults = print_success_fault, dump_faults = no_fault\<rparr>"

definition env_manifest_print_fails :: env where
  "env_manifest_print_fails =
     \<lparr>PROJECTS_DIR = ''projects'', now_isoformat = ''2024-01-01T00:00:00'',
      faults = manifest_print_fault, dump_faults = no_fault\<rparr>"

definition no_files :: "string \<rightharpoonup> file_data" where
  "no_files p = None"

definition empty_world :: world where
  "empty_world = \<lparr>files = no_files, journal = []\<rparr>"



text \<open>
  A character of the modelled range that is no whitespace and that \<open>str.lower\<close> leaves
  alone: used to show that the second \<open>lower()\<close> and the \<open>replace\<close> in the package name
  expression change nothing.
\<close>

definition plain_char :: "char \<Rightarrow> bool" where
  "plain_char c \<longleftrightarrow> \<not> py_isspace c \<and> py_lower_char c = c"

text \<open>
  The characters a Java package identifier is written with: ASCII letters, digits,
  \<open>_\<close> and the separating dot.  The source has no such set; it is what the word
  ``identifier-safe'' of the design text is read as.
\<close>

definition identifier_safe_char :: "char \<Rightarrow> bool" where
  "identifier_safe_char c =
     (let n = (of_char c :: nat)
      in (97 \<le> n \<and> n \<le> 122) \<or> (65 \<le> n \<and> n \<le> 90) \<or> (48 \<le> n \<and> n \<le> 57)
         \<or> c = CHR ''_'' \<or> c = CHR ''.'')"


section \<open>Facts about the string operations\<close>

lemma starts_with_iff: "starts_with s p \<longleftrightarrow> (\<exists>ss. s = p @ ss)"
  by (induction s p rule: starts_with.induct) auto

lemma py_in_iff: "py_in kw s \<longleftrightarrow> (\<exists>ps ss. s = ps @ kw @ ss)"
proof (induction s)
  case Nil
  then show ?case by auto
next
  case (Cons c cs)
  show ?case
  proof
    assume "py_in kw (c # cs)"
    then consider "starts_with (c # cs) kw" | "py_in kw cs" by auto
    then show "\<exists>ps ss. c # cs = ps @ kw @ ss"
    proof cases
      case 1
      then obtain ss where "c # cs = kw @ ss" by (auto simp: starts_with_iff)
      then have "c # cs = [] @ kw @ ss" by simp
      then show ?thesis by blast
    next
      case 2
      then obtain ps ss where "cs = ps @ kw @ ss" using Cons.IH by blast
      then have "c # cs = (c # ps) @ kw @ ss" by simp
      then show ?thesis by blast
    qed
  next
    assume "\<exists>ps ss. c # cs = ps @ kw @ ss"
    then obtain ps ss where eq: "c # cs = ps @ kw @ ss" by blast
    show "py_in kw (c # cs)"
    proof (cases ps)
      case Nil
      with eq have "starts_with (c # cs) kw" by (auto simp: starts_with_iff)
      then show ?thesis by simp
    next
      case (Cons p ps')
      with eq have "cs = ps' @ kw @ ss" by simp
      then have "py_in kw cs" using Cons.IH by blast
      then show ?thesis by simp
    qed
  qed
qed

lemma py_in_extend: "py_in kw s \<Longrightarrow> py_in kw (a @ s @ b)"
proof -
  assume "py_in kw s"
  then obtain ps ss where "s = ps @ kw @ ss" by (auto simp: py_in_iff)
  then have "a @ s @ b = (a @ ps) @ kw @ (ss @ b)" by simp
  then show ?thesis unfolding py_in_iff by blast
qed

lemma py_lower_append: "py_lower (a @ b) = py_lower a @ py_lower b"
  by (simp add: py_lower_def)

lemma opt_mono:
  "(P \<Longrightarrow> P') \<Longrightarrow> set r \<subseteq> set r' \<Longrightarrow>
   set ((if P then [x] else []) @ r) \<subseteq> set ((if P' then [x] else []) @ r')"
  by (cases P; cases P'; simp add: subset_insertI2)

lemma opt_mono_last:
  "(P \<Longrightarrow> P') \<Longrightarrow> set (if P then [x] else []) \<subseteq> set (if P' then [x] else [])"
  by (cases P; cases P'; simp)

lemma extract_features_mono:
  "set (extract_features s) \<subseteq> set (extract_features (a @ s @ b))"
  unfolding extract_features_def
  apply (rule opt_mono, blast intro: py_in_extend)
  apply (rule opt_mono, blast intro: py_in_extend)
  apply (rule opt_mono, blast intro: py_in_extend)
  apply (rule opt_mono, blast intro: py_in_extend)
  apply (rule opt_mono_last, blast intro: py_in_extend)
  done

lemma opt_subseq: "subseq xs ys \<Longrightarrow> subseq ((if P then [x] else []) @ xs) (x # ys)"
  by (cases P; simp add: list_emb_Cons)

lemma opt_subseq_last: "subseq (if P then [x] else []) [x]"
  by (cases P; simp)

lemma extract_features_subseq:
  "subseq (extract_features s)
     [''dark_mode'', ''notifications'', ''database'', ''sharing'', ''authentication'']"
  unfolding extract_features_def
  by (rule opt_subseq)+ (rule opt_subseq_last)

lemma subseq_distinct: "subseq xs ys \<Longrightarrow> distinct ys \<Longrightarrow> distinct xs"
proof (induction rule: list_emb.induct)
  case (list_emb_Cons2 x y xs ys)
  then have "x \<notin> set ys" by simp
  moreover have "set xs \<subseteq> set ys" using list_emb_Cons2.hyps(2) by (auto dest: list_emb_set)
  ultimately show ?case using list_emb_Cons2 by auto
qed auto

lemma extract_features_distinct: "distinct (extract_features s)"
  by (rule subseq_distinct [OF extract_features_subseq]) simp

lemma py_lower_char_idem: "py_lower_char (py_lower_char c) = py_lower_char c"
  by (simp add: py_lower_char_def Let_def)

lemma py_isspace_lower_char: "py_isspace (py_lower_char c) = py_isspace c"
  by (simp add: py_lower_char_def py_isspace_def Let_def)

lemma split_from_tokens:
  "list_all P cur \<Longrightarrow> list_all (\<lambda>c. py_isspace c \<or> P c) s \<Longrightarrow>
   list_all (list_all P) (split_from cur s)"
proof (induction s arbitrary: cur)
  case Nil
  then show ?case by simp
next
  case (Cons c cs)
  then show ?case by (cases "py_isspace c"; simp)
qed

lemma split_from_concat:
  "concat (split_from cur s) = cur @ filter (\<lambda>c. \<not> py_isspace c) s"
  by (induction s arbitrary: cur) simp_all

lemma py_split_concat: "concat (py_split s) = filter (\<lambda>c. \<not> py_isspace c) s"
  by (simp add: py_split_def split_from_concat)

lemma py_split_plain: "list_all (list_all plain_char) (py_split (py_lower d))"
  unfolding py_split_def
proof (rule split_from_tokens)
  show "list_all plain_char []" by simp
  show "list_all (\<lambda>c. py_isspace c \<or> plain_char c) (py_lower d)"
    by (simp add: py_lower_def list_all_iff plain_char_def py_lower_char_idem py_isspace_lower_char)
qed

lemma py_join_all:
  "list_all P sep \<Longrightarrow> list_all (list_all P) xs \<Longrightarrow> list_all P (py_join sep xs)"
  by (induction sep xs rule: py_join.induct) simp_all

lemma list_all_take: "list_all P xs \<Longrightarrow> list_all P (take n xs)"
  by (metis append_take_drop_id list_all_append)

lemma plain_prefix: "list_all plain_char ''com.rahl.''"
  by (simp add: plain_char_def py_isspace_def py_lower_char_def Let_def)

lemma plain_dot: "list_all plain_char ''.''"
  by (simp add: plain_char_def py_isspace_def py_lower_char_def Let_def)

lemma replace_char_plain:
  "list_all plain_char s \<Longrightarrow> replace_char CHR '' '' CHR ''_'' s = s"
proof -
  assume a: "list_all plain_char s"
  have sp: "py_isspace CHR '' ''" by (simp add: py_isspace_def)
  have "\<forall>c\<in>set s. c \<noteq> CHR '' ''" using a sp by (auto simp: list_all_iff plain_char_def)
  then show ?thesis unfolding replace_char_def by (simp add: map_idI)
qed

lemma py_lower_plain: "list_all plain_char s \<Longrightarrow> py_lower s = s"
  unfolding py_lower_def by (rule map_idI) (simp add: list_all_iff plain_char_def)

lemma package_body_plain:
  "list_all plain_char (''com.rahl.'' @ py_join ''.'' (take 3 (py_split (py_lower d))))"
  using plain_prefix py_join_all [OF plain_dot list_all_take [OF py_split_plain]]
  by (simp only: list_all_append)

lemma generate_package_name_eq:
  "generate_package_name (py_lower d) =
     take 50 (''com.rahl.'' @ py_join ''.'' (take 3 (py_split (py_lower d))))"
  unfolding generate_package_name_def Let_def
  by (simp only: replace_char_plain [OF package_body_plain] py_lower_plain [OF package_body_plain])

lemma package_name_analyze:
  "package_name (analyze_description d) = generate_package_name (py_lower d)"
  by (simp add: analyze_description_def Let_def)


section \<open>Facts about the classifier loops\<close>

lemma keyword_loop_hit:
  "\<exists>kw\<in>set kws. py_in kw d \<Longrightarrow> keyword_loop d t kws app = t"
  by (induction kws) auto

lemma keyword_loop_miss:
  "\<forall>kw\<in>set kws. \<not> py_in kw d \<Longrightarrow> keyword_loop d t kws app = app"
  by (induction kws) auto

lemma template_loop_miss:
  "\<forall>(t, kws)\<in>set tab. \<forall>kw\<in>set kws. \<not> py_in kw d \<Longrightarrow> template_loop d tab app = app"
  by (induction tab arbitrary: app) (auto simp: keyword_loop_miss)

lemma template_loop_append:
  "template_loop d (xs @ ys) app = template_loop d ys (template_loop d xs app)"
  by (induction xs arbitrary: app) auto

lemma template_loop_last_hit:
  assumes "\<exists>kw\<in>set kws. py_in kw d"
    and "\<forall>(t', kws')\<in>set later. \<forall>kw\<in>set kws'. \<not> py_in kw d"
  shows "template_loop d (earlier @ (t, kws) # later) app = t"
  using assms by (simp add: template_loop_append keyword_loop_hit template_loop_miss)

lemma features_analyze: "features (analyze_description d) = extract_features (py_lower d)"
  by (simp add: analyze_description_def Let_def)

lemma dark_mode_included:
  "py_in ''dark'' s \<or> py_in ''dark mode'' s \<Longrightarrow> ''dark_mode'' \<in> set (extract_features s)"
  by (simp add: extract_features_def)

lemma notifications_included:
  "py_in ''notification'' s \<Longrightarrow> ''notifications'' \<in> set (extract_features s)"
  by (simp add: extract_features_def)

lemma database_included:
  "py_in ''database'' s \<or> py_in ''store'' s \<or> py_in ''save'' s \<Longrightarrow>
   ''database'' \<in> set (extract_features s)"
  by (simp add: extract_features_def)

lemma sharing_included:
  "py_in ''share'' s \<Longrightarrow> ''sharing'' \<in> set (extract_features s)"
  by (simp add: extract_features_def)

lemma authentication_included:
  "py_in ''login'' s \<or> py_in ''sign in'' s \<Longrightarrow> ''authentication'' \<in> set (extract_features s)"
  by (simp add: extract_features_def)

lemma py_strip_empty_iff: "py_strip d = [] \<longleftrightarrow> (\<forall>c\<in>set d. py_isspace c)"
proof
  assume "py_strip d = []"
  then have all: "\<forall>c\<in>set (dropWhile py_isspace d). py_isspace c"
    by (simp add: py_strip_def)
  have "dropWhile py_isspace d = []"
  proof (rule ccontr)
    assume ne: "dropWhile py_isspace d \<noteq> []"
    then have "\<not> py_isspace (hd (dropWhile py_isspace d))" by (rule hd_dropWhile)
    moreover have "hd (dropWhile py_isspace d) \<in> set (dropWhile py_isspace d)"
      using ne by (rule hd_in_set)
    ultimately show False using all by blast
  qed
  then show "\<forall>c\<in>set d. py_isspace c" by simp
next
  assume "\<forall>c\<in>set d. py_isspace c"
  then have e: "dropWhile py_isspace d = []" by simp
  show "py_strip d = []" unfolding py_strip_def e by simp
qed


section \<open>The classifier: archetype, features, package name\<close>

text \<open>
  Claim C1 (the first archetype in catalog order with a keyword hit is returned).
  The loop over the keyword dictionary does not stop at the first archetype with a hit:
  the \<open>break\<close> leaves the keyword loop only, and a later archetype with a hit overwrites
  \<open>app_type\<close>.  The description \<open>website todo\<close> holds the keyword \<open>website\<close> of
  \<open>webview\<close> and no keyword of the earlier \<open>calculator\<close>, and is classified as \<open>todo\<close>.
\<close>

theorem last_matching_archetype_wins_website_todo:
  "app_type (analyze_description ''website todo'') = ''todo''"
  by code_simp

text \<open>
  Claim C4 (package identifier), as stated: the identifier holds identifier-safe characters
  only.  The code strips nothing but whitespace: the description \<open>My App! is #1 ok\<close>
  yields an identifier with an exclamation mark.
\<close>

theorem package_name_not_identifier_safe:
  "package_name (analyze_description ''My App! is #1 ok'') = ''com.rahl.my.app!.is''
   \<and> \<not> list_all identifier_safe_char (package_name (analyze_description ''My App! is #1 ok''))"
  by code_simp

text \<open>
  Claim C4, amended: for every description the package identifier starts with
  \<open>com.rahl.\<close>, has at most 50 characters, and is the first 50 characters of \<open>com.rahl.\<close>
  followed by the first three whitespace-delimited tokens of the lower-cased description
  joined with dots.  It holds no whitespace, and nothing else is taken out: the tokens,
  put together, are the lower-cased description without its whitespace, so punctuation
  and any other character stay in them.
\<close>

theorem package_name_shape:
  "take 9 (package_name (analyze_description d)) = ''com.rahl.''
   \<and> length (package_name (analyze_description d)) \<le> 50
   \<and> package_name (analyze_description d)
       = take 50 (''com.rahl.'' @ py_join ''.'' (take 3 (py_split (py_lower d))))
   \<and> (\<forall>c \<in> set (package_name (analyze_description d)). \<not> py_isspace c)
   \<and> concat (py_split (py_lower d)) = filter (\<lambda>c. \<not> py_isspace c) (py_lower d)"
proof -
  let ?body = "''com.rahl.'' @ py_join ''.'' (take 3 (py_split (py_lower d)))"
  have eq: "package_name (analyze_description d) = take 50 ?body"
    by (simp only: package_name_analyze generate_package_name_eq)
  have pre: "take 9 (take 50 ?body) = ''com.rahl.''" by simp
  have len: "length (take 50 ?body) \<le> 50" by simp
  have "list_all plain_char (take 50 ?body)"
    by (rule list_all_take [OF package_body_plain])
  then have chars: "\<forall>c \<in> set (take 50 ?body). \<not> py_isspace c"
    by (simp add: list_all_iff plain_char_def)
  have toks: "concat (py_split (py_lower d)) = filter (\<lambda>c. \<not> py_isspace c) (py_lower d)"
    by (rule py_split_concat)
  show ?thesis
    unfolding eq using pre len chars toks by blast
qed

theorem package_name_shape_witness:
  "package_name (analyze_description ''My App! is #1 ok'') = ''com.rahl.my.app!.is''
   \<and> take 9 (package_name (analyze_description ''My App! is #1 ok'')) = ''com.rahl.''
   \<and> length (package_name (analyze_description ''My App! is #1 ok'')) \<le> 50
   \<and> list_all (\<lambda>c. \<not> py_isspace c) (package_name (analyze_description ''My App! is #1 ok''))
   \<and> concat (py_split (py_lower ''My App! is #1 ok'')) = ''myapp!is#1ok''"
proof -
  have a: "package_name (analyze_description ''My App! is #1 ok'') = ''com.rahl.my.app!.is''"
    by code_simp
  have b: "filter (\<lambda>c. \<not> py_isspace c) (py_lower ''My App! is #1 ok'') = ''myapp!is#1ok''"
    by code_simp
  show ?thesis
    unfolding list_all_iff
    using a b package_name_shape [of "''My App! is #1 ok''"] by simp
qed

text \<open>
  Claim C8 (feature detection is monotonic and additive): every feature detected in a
  description \<open>d\<close> is detected in \<open>d\<close> extended with any text \<open>k\<close> (appended directly or
  after a space), the features are reported in the order of their definition, each at
  most once, and every feature one of whose keywords occurs in the lower-cased description
  is reported.
\<close>

theorem feature_detection_monotonic_ordered:
  "set (features (analyze_description d)) \<subseteq> set (features (analyze_description (d @ k)))
   \<and> set (features (analyze_description d)) \<subseteq> set (features (analyze_description (d @ '' '' @ k)))
   \<and> subseq (features (analyze_description d))
        [''dark_mode'', ''notifications'', ''database'', ''sharing'', ''authentication'']
   \<and> distinct (features (analyze_description d))
   \<and> (py_in ''dark'' (py_lower d) \<or> py_in ''dark mode'' (py_lower d) \<longrightarrow>
        ''dark_mode'' \<in> set (features (analyze_description d)))
   \<and> (py_in ''notification'' (py_lower d) \<longrightarrow>
        ''notifications'' \<in> set (features (analyze_description d)))
   \<and> (py_in ''database'' (py_lower d) \<or> py_in ''store'' (py_lower d)
        \<or> py_in ''save'' (py_lower d) \<longrightarrow>
        ''database'' \<in> set (features (analyze_description d)))
   \<and> (py_in ''share'' (py_lower d) \<longrightarrow>
        ''sharing'' \<in> set (features (analyze_description d)))
   \<and> (py_in ''login'' (py_lower d) \<or> py_in ''sign in'' (py_lower d) \<longrightarrow>
        ''authentication'' \<in> set (features (analyze_description d)))"
proof -
  have m1: "set (extract_features (py_lower d)) \<subseteq> set (extract_features (py_lower (d @ k)))"
    using extract_features_mono [of "py_lower d" "[]" "py_lower k"]
    by (simp add: py_lower_append)
  have m2: "set (extract_features (py_lower d))
              \<subseteq> set (extract_features (py_lower (d @ '' '' @ k)))"
    using extract_features_mono [of "py_lower d" "[]" "py_lower ('' '' @ k)"]
    by (simp only: py_lower_append append_Nil)
  show ?thesis
    unfolding features_analyze
    by (intro conjI impI m1 m2 extract_features_subseq extract_features_distinct
          dark_mode_included notifications_included database_included sharing_included
          authentication_included)
qed

theorem feature_detection_monotonic_ordered_witness:
  "features (analyze_description ''notes with Dark mode'') = [''dark_mode'']
   \<and> features (analyze_description (''notes with Dark mode'' @ '' '' @ ''save''))
       = [''dark_mode'', ''database'']
   \<and> set (features (analyze_description ''notes with Dark mode''))
       \<subseteq> set (features (analyze_description (''notes with Dark mode'' @ '' '' @ ''save'')))
   \<and> distinct (features (analyze_description ''notes with Dark mode''))"
proof -
  have a: "features (analyze_description ''notes with Dark mode'') = [''dark_mode'']"
    by code_simp
  have b: "features (analyze_description (''notes with Dark mode'' @ '' '' @ ''save''))
       = [''dark_mode'', ''database'']"
    by code_simp
  show ?thesis
    using a b feature_detection_monotonic_ordered [of "''notes with Dark mode''" "''save''"]
    by blast
qed

text \<open>
  Claim C10 (classification of a blank description): for a description of whitespace
  only, the stripped text is empty and \<open>analyze_description\<close> returns the default archetype
  \<open>webview\<close>, no feature, a feature count equal to the length of the feature list, and the
  package identifier \<open>com.rahl.\<close> with its trailing dot.  The function has no failing
  branch: every string operation it uses is defined on every string.
\<close>

theorem analyze_description_blank:
  assumes "\<forall>c\<in>set d. py_isspace c"
  shows "py_strip d = []
         \<and> analyze_description (py_strip d)
           = \<lparr>app_type = ''webview'', features = [], package_name = ''com.rahl.'',
               detected_features = 0\<rparr>
         \<and> detected_features (analyze_description (py_strip d))
             = length (features (analyze_description (py_strip d)))"
proof -
  have "analyze_description []
           = \<lparr>app_type = ''webview'', features = [], package_name = ''com.rahl.'',
               detected_features = 0\<rparr>"
    by code_simp
  moreover have "py_strip d = []" using assms by (simp only: py_strip_empty_iff)
  ultimately show ?thesis by simp
qed

theorem analyze_description_blank_witness:
  "py_strip [CHR '' '', CHR 0x09, CHR 0x0A] = []
   \<and> analyze_description (py_strip [CHR '' '', CHR 0x09, CHR 0x0A])
           = \<lparr>app_type = ''webview'', features = [], package_name = ''com.rahl.'',
               detected_features = 0\<rparr>"
proof -
  have a: "\<forall>c\<in>set [CHR '' '', CHR 0x09, CHR 0x0A]. py_isspace c"
    by (simp add: py_isspace_def)
  show ?thesis using analyze_description_blank [OF a] by blast
qed

section \<open>Facts about the build job\<close>

subsection \<open>Paths\<close>

lemma last_join2: "b \<noteq> [] \<Longrightarrow> last (os_path_join2 a b) = last b"
  by (simp add: os_path_join2_def)

lemma join2_not_Nil: "b \<noteq> [] \<Longrightarrow> os_path_join2 a b \<noteq> []"
  by (simp add: os_path_join2_def)

lemma os_path_join_snoc: "os_path_join a (ps @ [b]) = os_path_join2 (os_path_join a ps) b"
  by (simp add: os_path_join_def)

lemma last_metadata_path: "last (os_path_join pp [''metadata.json'']) = CHR ''n''"
  by (simp add: os_path_join_def last_join2)

lemma neq_by_last: "last p \<noteq> last q \<Longrightarrow> p \<noteq> q"
  by auto

lemma manifest_path_neq:
  "os_path_join pp [''app'', ''src'', ''main'', ''AndroidManifest.xml'']
     \<noteq> os_path_join pp [''metadata.json'']"
  by (rule neq_by_last) (simp add: os_path_join_def last_join2)

lemma activity_path_neq:
  "os_path_join jd [''MainActivity.java''] \<noteq> os_path_join pp [''metadata.json'']"
  by (rule neq_by_last) (simp add: os_path_join_def last_join2)

lemma styles_path_neq:
  "os_path_join (os_path_join pp [''app'', ''src'', ''main'', ''res'', ''values'']) [''styles.xml'']
     \<noteq> os_path_join pp [''metadata.json'']"
  by (rule neq_by_last) (simp add: os_path_join_def last_join2)

lemma layout_path_neq:
  "os_path_join (os_path_join pp [''app'', ''src'', ''main'', ''res'', ''layout'']) [''activity_main.xml'']
     \<noteq> os_path_join pp [''metadata.json'']"
  by (rule neq_by_last) (simp add: os_path_join_def last_join2)

lemma gradle_paths_neq:
  "os_path_join pp [''app'', ''build.gradle''] \<noteq> os_path_join pp [''metadata.json'']"
  "os_path_join pp [''build.gradle''] \<noteq> os_path_join pp [''metadata.json'']"
  "os_path_join pp [''settings.gradle''] \<noteq> os_path_join pp [''metadata.json'']"
  "os_path_join pp [''gradle.properties''] \<noteq> os_path_join pp [''metadata.json'']"
  by (rule neq_by_last, simp add: os_path_join_def last_join2)+

lemma strings_path_neq:
  "os_path_join (os_path_join pp [''app'', ''src'', ''main'', ''res'', ''values'']) [''strings.xml'']
     \<noteq> os_path_join pp [''metadata.json'']"
  by (rule neq_by_last) (simp add: os_path_join_def last_join2)

lemma apk_path_neq:
  "os_path_join (os_path_join pp [''app'', ''build'', ''outputs'', ''apk'', ''debug'']) [''app-debug.apk'']
     \<noteq> os_path_join pp [''metadata.json'']"
  by (rule neq_by_last) (simp add: os_path_join_def last_join2)

lemma apk_path_join:
  "os_path_join (os_path_join pp [''app'', ''build'', ''outputs'', ''apk'', ''debug'']) [''app-debug.apk'']
     = os_path_join pp [''app'', ''build'', ''outputs'', ''apk'', ''debug'', ''app-debug.apk'']"
  by (simp add: os_path_join_def)

lemma apk_path_of_neq: "apk_path_of e pid \<noteq> metadata_path_of e pid"
  unfolding apk_path_of_def metadata_path_of_def
  by (rule neq_by_last) (simp add: os_path_join_def last_join2)

subsection \<open>replay and committed\<close>

lemma replay_append: "replay fs (xs @ ys) = replay (replay fs xs) ys"
  by (induction xs arbitrary: fs) auto

lemma committed_append: "committed mp (xs @ ys) = committed mp xs @ committed mp ys"
  by (induction mp xs rule: committed.induct) auto

lemma replay_other: "p \<notin> fst ` set es \<Longrightarrow> replay fs es p = fs p"
  by (induction es arbitrary: fs) auto

subsection \<open>the effect of a computation\<close>

lemma world_same: "w\<lparr>files := replay (files w) [], journal := journal w @ []\<rparr> = w"
  by simp

lemma wo_return: "writes_only A (return_io x)"
  unfolding writes_only_def
proof
  fix w
  have "list_all A [] \<and> snd (return_io x w) = w\<lparr>files := replay (files w) [], journal := journal w @ []\<rparr>"
    by (simp add: return_io_def)
  then show "\<exists>es. list_all A es \<and> snd (return_io x w) = w\<lparr>files := replay (files w) es, journal := journal w @ es\<rparr>"
    by blast
qed

lemma wo_no_write:
  assumes "\<And>w. snd (m w) = w"
  shows "writes_only A m"
  unfolding writes_only_def
proof
  fix w
  have "list_all A [] \<and> snd (m w) = w\<lparr>files := replay (files w) [], journal := journal w @ []\<rparr>"
    by (simp add: assms)
  then show "\<exists>es. list_all A es \<and> snd (m w) = w\<lparr>files := replay (files w) es, journal := journal w @ es\<rparr>"
    by blast
qed

lemma wo_makedirs: "writes_only A (os_makedirs e opn)"
  by (rule wo_no_write) (simp add: os_makedirs_def split: option.splits)

lemma wo_print: "writes_only A (py_print e opn)"
  by (rule wo_no_write) (simp add: py_print_def split: option.splits)

lemma wo_exists: "writes_only A (os_path_exists p)"
  by (rule wo_no_write) (simp add: os_path_exists_def)

lemma wo_load: "writes_only A (json_load e opn p)"
  by (rule wo_no_write) (simp add: json_load_def split: option.splits file_data.splits)

lemma wo_one_change:
  assumes "A (p, c)"
    and "\<And>w. m w = (r, w) \<or> m w = (r', w\<lparr>files := (files w)(p \<mapsto> c), journal := journal w @ [(p, c)]\<rparr>)"
  shows "writes_only A m"
  unfolding writes_only_def
proof
  fix w
  from assms(2) [of w]
  show "\<exists>es. list_all A es \<and> snd (m w) = w\<lparr>files := replay (files w) es, journal := journal w @ es\<rparr>"
  proof
    assume "m w = (r, w)"
    then have "list_all A [] \<and> snd (m w)
        = w\<lparr>files := replay (files w) [], journal := journal w @ []\<rparr>"
      by simp
    then show ?thesis by blast
  next
    assume "m w = (r', w\<lparr>files := (files w)(p \<mapsto> c), journal := journal w @ [(p, c)]\<rparr>)"
    then have "list_all A [(p, c)] \<and> snd (m w)
        = w\<lparr>files := replay (files w) [(p, c)], journal := journal w @ [(p, c)]\<rparr>"
      using assms(1) by simp
    then show ?thesis by blast
  qed
qed

lemma wo_open:
  assumes "A (p, Partial)"
  shows "writes_only A (open_w e opn p)"
proof (cases "faults e opn")
  case None
  show ?thesis
    by (rule wo_one_change [where p = p and c = Partial and r' = "Inr ()"])
       (simp_all add: assms open_w_def None)
next
  case (Some msg)
  show ?thesis
    by (rule wo_one_change [where p = p and c = Partial and r = "Inl msg"])
       (simp_all add: assms open_w_def Some)
qed

lemma wo_dump:
  assumes "A (p, c)"
  shows "writes_only A (dump_close e opn p c)"
proof (cases "dump_faults e opn")
  case None
  show ?thesis
    by (rule wo_one_change [where p = p and c = c and r' = "Inr ()"])
       (simp_all add: assms dump_close_def None)
next
  case (Some msg)
  show ?thesis
    by (rule wo_one_change [where p = p and c = c and r = "Inl msg"])
       (simp_all add: assms dump_close_def Some)
qed

lemma wo_bind:
  assumes m: "writes_only A m" and f: "\<And>x. writes_only A (f x)"
  shows "writes_only A (bind_io m f)"
  unfolding writes_only_def
proof
  fix w
  obtain r w1 where mw: "m w = (r, w1)" by (cases "m w")
  from m obtain es1 where es1: "list_all A es1"
      and w1: "w1 = w\<lparr>files := replay (files w) es1, journal := journal w @ es1\<rparr>"
    unfolding writes_only_def using mw by (metis snd_conv)
  show "\<exists>es. list_all A es \<and> snd (bind_io m f w) = w\<lparr>files := replay (files w) es, journal := journal w @ es\<rparr>"
  proof (cases r)
    case (Inl msg)
    then have "snd (bind_io m f w) = w1" by (simp add: bind_io_def mw)
    with es1 w1 show ?thesis by blast
  next
    case (Inr x)
    then have b: "snd (bind_io m f w) = snd (f x w1)" by (simp add: bind_io_def mw)
    from f [of x] obtain es2 where es2: "list_all A es2"
      and w2: "snd (f x w1) = w1\<lparr>files := replay (files w1) es2, journal := journal w1 @ es2\<rparr>"
      unfolding writes_only_def by blast
    have "w1\<lparr>files := replay (files w1) es2, journal := journal w1 @ es2\<rparr>
            = w\<lparr>files := replay (files w) (es1 @ es2), journal := journal w @ (es1 @ es2)\<rparr>"
      by (simp add: w1 replay_append)
    then have "snd (bind_io m f w) = w\<lparr>files := replay (files w) (es1 @ es2), journal := journal w @ (es1 @ es2)\<rparr>"
      using b w2 by simp
    moreover have "list_all A (es1 @ es2)" using es1 es2 by simp
    ultimately show ?thesis by blast
  qed
qed

lemma wo_write:
  assumes "A (p, Partial)" and "A (p, c)"
  shows "writes_only A (write_file e opn p c)"
  unfolding write_file_def by (intro wo_bind wo_open wo_dump assms)

lemma wo_mono:
  assumes "writes_only A m" and "\<And>x. A x \<Longrightarrow> B x"
  shows "writes_only B m"
  unfolding writes_only_def
proof
  fix w
  from assms(1) obtain es where es: "list_all A es"
    and eq: "snd (m w) = w\<lparr>files := replay (files w) es, journal := journal w @ es\<rparr>"
    unfolding writes_only_def by blast
  from es assms(2) have "list_all B es" by (simp add: list_all_iff)
  with eq show "\<exists>es. list_all B es \<and> snd (m w) = w\<lparr>files := replay (files w) es, journal := journal w @ es\<rparr>"
    by blast
qed

lemma text_elsewhere_admissible: "text_elsewhere mp x \<Longrightarrow> admissible mp x"
proof (cases x)
  case (Pair p c)
  assume "text_elsewhere mp x"
  with Pair show ?thesis by (cases c) simp_all
qed

lemma wo_if: "writes_only A m \<Longrightarrow> writes_only A n \<Longrightarrow> writes_only A (if b then m else n)"
  by simp

subsection \<open>the scaffolding changes files beside the record\<close>

lemmas scaffold_paths_neq =
  manifest_path_neq activity_path_neq styles_path_neq layout_path_neq gradle_paths_neq
  strings_path_neq apk_path_neq

lemma wo_generate_manifest:
  "writes_only (text_elsewhere (os_path_join pp [''metadata.json'']))
     (generate_manifest e pp pk at)"
  unfolding generate_manifest_def Let_def
  by (rule wo_write) (simp_all add: scaffold_paths_neq)

lemma wo_generate_main_activity:
  "writes_only (text_elsewhere (os_path_join pp [''metadata.json'']))
     (generate_main_activity e pp pk at fe)"
  unfolding generate_main_activity_def Let_def
  by (rule wo_write) (simp_all add: scaffold_paths_neq)

lemma wo_generate_layouts:
  "writes_only (text_elsewhere (os_path_join pp [''metadata.json'']))
     (generate_layouts e pp at)"
  unfolding generate_layouts_def Let_def
  by (intro wo_if wo_bind wo_write; simp add: scaffold_paths_neq)

lemma wo_generate_build_gradle:
  "writes_only (text_elsewhere (os_path_join pp [''metadata.json'']))
     (generate_build_gradle e pp pk)"
  unfolding generate_build_gradle_def Let_def
  by (intro wo_bind wo_write; simp add: scaffold_paths_neq)

lemma wo_generate_strings:
  "writes_only (text_elsewhere (os_path_join pp [''metadata.json'']))
     (generate_strings e pp at)"
  unfolding generate_strings_def Let_def
  by (rule wo_write) (simp_all add: scaffold_paths_neq)

lemma wo_create_dummy_apk:
  "writes_only (text_elsewhere (os_path_join pp [''metadata.json'']))
     (create_dummy_apk e pp)"
  unfolding create_dummy_apk_def Let_def
  by (rule wo_write) (simp_all add: scaffold_paths_neq)

lemma wo_generate_android_project:
  "writes_only (text_elsewhere (os_path_join pp [''metadata.json'']))
     (generate_android_project e pp at pk fe)"
  unfolding generate_android_project_def
  by (intro wo_bind wo_makedirs wo_generate_manifest wo_generate_main_activity
        wo_generate_layouts wo_generate_build_gradle wo_generate_strings wo_create_dummy_apk)

subsection \<open>triples\<close>

lemma hoareD':
  assumes "hoare P m Q E" and "P w"
  shows "case m w of (Inl msg, w') \<Rightarrow> E msg w' | (Inr x, w') \<Rightarrow> Q x w'"
proof -
  from assms(1) have "P w \<longrightarrow> (case m w of (Inl msg, w') \<Rightarrow> E msg w' | (Inr x, w') \<Rightarrow> Q x w')"
    unfolding hoare_def by (rule spec)
  from this assms(2) show ?thesis by (rule mp)
qed

lemma hoareD:
  assumes "hoare P m Q E" and "P w" and "m w = (r, w')"
  shows "case r of Inl msg \<Rightarrow> E msg w' | Inr x \<Rightarrow> Q x w'"
  using hoareD' [OF assms(1,2)] by (simp add: assms(3) split: sum.splits)

lemma hoare_bind:
  assumes m: "hoare P m R E" and f: "\<And>x. hoare (R x) (f x) Q E"
  shows "hoare P (bind_io m f) Q E"
  unfolding hoare_def
proof (intro allI impI)
  fix w
  assume P: "P w"
  obtain r w1 where mw: "m w = (r, w1)" by (cases "m w")
  show "case bind_io m f w of (Inl msg, w') \<Rightarrow> E msg w' | (Inr x, w') \<Rightarrow> Q x w'"
  proof (cases r)
    case (Inl msg)
    with hoareD [OF m P mw] have "E msg w1" by simp
    then show ?thesis by (simp add: bind_io_def mw Inl)
  next
    case (Inr x)
    with hoareD [OF m P mw] have "R x w1" by simp
    from hoareD' [OF f this]
    show ?thesis by (simp add: bind_io_def mw Inr)
  qed
qed

lemma hoare_return:
  assumes "\<And>w. P w \<Longrightarrow> Q x w"
  shows "hoare P (return_io x) Q E"
  using assms by (simp add: hoare_def return_io_def)

lemma hoare_false: "hoare (\<lambda>_. False) m Q E"
  by (simp add: hoare_def)

lemma hoare_makedirs:
  assumes "\<And>w. P w \<Longrightarrow> faults e opn = None \<Longrightarrow> Q () w"
    and "\<And>msg w. P w \<Longrightarrow> faults e opn = Some msg \<Longrightarrow> E msg w"
  shows "hoare P (os_makedirs e opn) Q E"
  using assms by (simp add: hoare_def os_makedirs_def split: option.splits)

lemma hoare_print:
  assumes "\<And>w. P w \<Longrightarrow> faults e opn = None \<Longrightarrow> Q () w"
    and "\<And>msg w. P w \<Longrightarrow> faults e opn = Some msg \<Longrightarrow> E msg w"
  shows "hoare P (py_print e opn) Q E"
  using assms by (simp add: hoare_def py_print_def split: option.splits)

lemma hoare_write:
  assumes ok: "\<And>w. P w \<Longrightarrow> faults e opn = None \<Longrightarrow> dump_faults e opn = None \<Longrightarrow>
             Q () (w\<lparr>files := (files w)(p \<mapsto> c), journal := journal w @ [(p, Partial), (p, c)]\<rparr>)"
    and op: "\<And>msg w. P w \<Longrightarrow> faults e opn = Some msg \<Longrightarrow> E msg w"
    and dp: "\<And>msg w. P w \<Longrightarrow> faults e opn = None \<Longrightarrow> dump_faults e opn = Some msg \<Longrightarrow>
             E msg (w\<lparr>files := (files w)(p \<mapsto> Partial), journal := journal w @ [(p, Partial)]\<rparr>)"
  shows "hoare P (write_file e opn p c) Q E"
  unfolding hoare_def
proof (intro allI impI)
  fix w assume P: "P w"
  show "case write_file e opn p c w of (Inl msg, w') \<Rightarrow> E msg w' | (Inr x, w') \<Rightarrow> Q x w'"
  proof (cases "faults e opn")
    case (Some msg)
    with op [OF P] show ?thesis by (simp add: write_file_def bind_io_def open_w_def)
  next
    case None
    show ?thesis
    proof (cases "dump_faults e opn")
      case (Some msg)
      with dp [OF P None] show ?thesis
        by (simp add: write_file_def bind_io_def open_w_def dump_close_def None)
    next
      case dn: None
      with ok [OF P None] show ?thesis
        by (simp add: write_file_def bind_io_def open_w_def dump_close_def None)
    qed
  qed
qed

lemma hoare_exists:
  assumes "\<And>w. P w \<Longrightarrow> Q (files w p \<noteq> None) w"
  shows "hoare P (os_path_exists p) Q E"
  using assms by (simp add: hoare_def os_path_exists_def)

lemma hoare_load:
  assumes "\<And>w. P w \<Longrightarrow> \<exists>md. files w p = Some (Json md)"
    and "\<And>w md. P w \<Longrightarrow> files w p = Some (Json md) \<Longrightarrow> faults e opn = None \<Longrightarrow> Q md w"
    and "\<And>msg w. P w \<Longrightarrow> faults e opn = Some msg \<Longrightarrow> E msg w"
  shows "hoare P (json_load e opn p) Q E"
  unfolding hoare_def
proof (intro allI impI)
  fix w assume P: "P w"
  from assms(1) [OF P] obtain md where md: "files w p = Some (Json md)" by blast
  show "case json_load e opn p w of (Inl msg, w') \<Rightarrow> E msg w' | (Inr x, w') \<Rightarrow> Q x w'"
  proof (cases "faults e opn")
    case None
    with assms(2) [OF P md] show ?thesis by (simp add: json_load_def md)
  next
    case (Some msg)
    with assms(3) [OF P] show ?thesis by (simp add: json_load_def)
  qed
qed

lemma hoare_load_partial:
  assumes "\<And>w. P w \<Longrightarrow> files w p = Some Partial"
    and "\<And>msg w. P w \<Longrightarrow> E msg w"
  shows "hoare P (json_load e opn p) Q E"
  unfolding hoare_def
proof (intro allI impI)
  fix w assume P: "P w"
  from assms(1) [OF P] have f: "files w p = Some Partial" .
  show "case json_load e opn p w of (Inl msg, w') \<Rightarrow> E msg w' | (Inr x, w') \<Rightarrow> Q x w'"
    using assms(2) [OF P] by (cases "faults e opn") (simp_all add: json_load_def f)
qed

lemma hoare_weaken:
  assumes "hoare P m Q E" and "\<And>w. P' w \<Longrightarrow> P w"
    and "\<And>x w. Q x w \<Longrightarrow> Q' x w" and "\<And>msg w. E msg w \<Longrightarrow> E' msg w"
  shows "hoare P' m Q' E'"
  unfolding hoare_def
proof (intro allI impI)
  fix w assume "P' w"
  then have P: "P w" by (rule assms(2))
  obtain r w1 where mw: "m w = (r, w1)" by (cases "m w")
  from hoareD [OF assms(1) P mw] show "case m w of (Inl msg, w') \<Rightarrow> E' msg w' | (Inr x, w') \<Rightarrow> Q' x w'"
    using assms(3,4) by (cases r) (simp_all add: mw)
qed

text \<open>A computation that changes only other files keeps what is known of the record.\<close>

lemma text_elsewhere_replay:
  "list_all (text_elsewhere mp) es \<Longrightarrow> replay fs es mp = fs mp \<and> committed mp es = []"
proof (induction es arbitrary: fs)
  case Nil
  then show ?case by simp
next
  case (Cons x es)
  obtain p c where x: "x = (p, c)" by (cases x)
  from Cons.prems x have ne: "p \<noteq> mp" by (cases c) simp_all
  from Cons.prems have "list_all (text_elsewhere mp) es" by simp
  then have ih: "replay (fs(p \<mapsto> c)) es mp = (fs(p \<mapsto> c)) mp \<and> committed mp es = []"
    by (rule Cons.IH)
  have upd: "(fs(p \<mapsto> c)) mp = fs mp" using ne by simp
  have r: "replay fs (x # es) = replay (fs(p \<mapsto> c)) es" by (simp add: x)
  have cm: "committed mp (x # es) = committed mp es" using ne by (cases c) (simp_all add: x)
  show ?case unfolding r cm by (simp only: ih upd)
qed

lemma hoare_frame:
  assumes wo: "writes_only (text_elsewhere mp) m"
    and inv: "\<And>w es. P w \<Longrightarrow> list_all (text_elsewhere mp) es \<Longrightarrow>
                P (w\<lparr>files := replay (files w) es, journal := journal w @ es\<rparr>)"
  shows "hoare P m (\<lambda>_. P) (\<lambda>_. P)"
  unfolding hoare_def
proof (intro allI impI)
  fix w assume P: "P w"
  from wo obtain es where es: "list_all (text_elsewhere mp) es"
    and eq: "snd (m w) = w\<lparr>files := replay (files w) es, journal := journal w @ es\<rparr>"
    unfolding writes_only_def by blast
  from inv [OF P es] eq have "P (snd (m w))" by simp
  then show "case m w of (Inl msg, w') \<Rightarrow> P w' | (Inr x, w') \<Rightarrow> P w'"
    by (cases "m w"; cases "fst (m w)"; simp)
qed

lemma stage_building_frame:
  "stage_building mp md0 w \<Longrightarrow> list_all (text_elsewhere mp) es \<Longrightarrow>
   stage_building mp md0 (w\<lparr>files := replay (files w) es, journal := journal w @ es\<rparr>)"
  by (simp add: stage_building_def committed_append text_elsewhere_replay)

lemma hoare_any: "hoare P m (\<lambda>_ _. True) (\<lambda>_ _. True)"
  by (simp add: hoare_def split: prod.splits sum.splits)

lemma hoare_conj:
  assumes "hoare P m Q E" and "hoare P' m Q' E'"
  shows "hoare (\<lambda>w. P w \<and> P' w) m (\<lambda>x w. Q x w \<and> Q' x w) (\<lambda>msg w. E msg w \<and> E' msg w)"
  unfolding hoare_def
proof (intro allI impI)
  fix w assume "P w \<and> P' w"
  then have P: "P w" and P': "P' w" by simp_all
  obtain r w1 where mw: "m w = (r, w1)" by (cases "m w")
  from hoareD [OF assms(1) P mw] hoareD [OF assms(2) P' mw]
  show "case m w of (Inl msg, w') \<Rightarrow> E msg w' \<and> E' msg w' | (Inr x, w') \<Rightarrow> Q x w' \<and> Q' x w'"
    by (cases r) (simp_all add: mw)
qed

lemma hoare_assume:
  assumes "C \<Longrightarrow> hoare P m Q E"
  shows "hoare (\<lambda>w. C \<and> P w) m Q E"
proof (cases C)
  case True
  from assms [OF True] show ?thesis by (simp add: hoare_def True)
next
  case False
  then show ?thesis by (simp add: hoare_def)
qed

lemma hoare_if:
  "hoare P m Q E \<Longrightarrow> hoare P n Q E \<Longrightarrow> hoare P (if b then m else n) Q E"
  by simp

subsection \<open>which operation raised\<close>

lemma file_faultI:
  "faults e opn = Some msg \<Longrightarrow> opn \<noteq> Print_success \<Longrightarrow> opn \<noteq> Print_error \<Longrightarrow> file_fault e msg"
  unfolding file_fault_def by blast

lemma file_faultI_dump:
  "dump_faults e opn = Some msg \<Longrightarrow> opn \<noteq> Print_success \<Longrightarrow> opn \<noteq> Print_error
   \<Longrightarrow> file_fault e msg"
  unfolding file_fault_def by blast

lemma file_fault_msg: "file_fault e msg \<Longrightarrow> fault_msg e msg"
  unfolding file_fault_def fault_msg_def by blast

lemma fault_msgI: "faults e opn = Some msg \<Longrightarrow> fault_msg e msg"
  unfolding fault_msg_def by blast

lemma file_fault_job:
  "faults e Makedirs_project = Some msg \<Longrightarrow> file_fault e msg"
  "faults e Write_metadata_building = Some msg \<Longrightarrow> file_fault e msg"
  "dump_faults e Write_metadata_building = Some msg \<Longrightarrow> file_fault e msg"
  "faults e Write_metadata_generated = Some msg \<Longrightarrow> file_fault e msg"
  "dump_faults e Write_metadata_generated = Some msg \<Longrightarrow> file_fault e msg"
  "faults e Read_metadata = Some msg \<Longrightarrow> file_fault e msg"
  "faults e Write_metadata_completed = Some msg \<Longrightarrow> file_fault e msg"
  "dump_faults e Write_metadata_completed = Some msg \<Longrightarrow> file_fault e msg"
  by (erule file_faultI file_faultI_dump, simp, simp)+

lemma open_faultI:
  "faults e Makedirs_project = Some msg \<Longrightarrow> open_fault e"
  "faults e Write_metadata_building = Some msg \<Longrightarrow> open_fault e"
  by (simp_all add: open_fault_def)

lemma early_faultI:
  "dump_faults e Write_metadata_building = Some msg \<Longrightarrow> early_fault e"
  by (simp add: early_fault_def)

lemma open_fault_early: "open_fault e \<Longrightarrow> early_fault e"
  by (auto simp add: open_fault_def early_fault_def)

lemma rewrite_faultI:
  "dump_faults e Write_metadata_generated = Some msg \<Longrightarrow> rewrite_fault e"
  "dump_faults e Write_metadata_completed = Some msg \<Longrightarrow> rewrite_fault e"
  by (simp_all add: rewrite_fault_def)

lemma handler_faultI:
  "faults e Print_error = Some msg \<Longrightarrow> handler_fault e"
  "faults e Handler_read_metadata = Some msg \<Longrightarrow> handler_fault e"
  "faults e Handler_write_metadata = Some msg \<Longrightarrow> handler_fault e"
  "dump_faults e Handler_write_metadata = Some msg \<Longrightarrow> handler_fault e"
  by (simp_all add: handler_fault_def)

subsection \<open>the scaffolding\<close>

lemma scaffold_raise:
  "hoare (\<lambda>_. True) (generate_android_project e pp at pk fe)
     (\<lambda>_ _. True) (\<lambda>msg _. file_fault e msg)"
  unfolding generate_android_project_def generate_manifest_def generate_main_activity_def
    generate_layouts_def generate_build_gradle_def generate_strings_def create_dummy_apk_def
    Let_def
  by (intro hoare_bind [where R = "\<lambda>_ _. True"] hoare_if hoare_write hoare_makedirs TrueI;
      (erule file_faultI file_faultI_dump, simp, simp))

lemma dummy_apk_written:
  "hoare (\<lambda>_. True) (create_dummy_apk e pp)
     (\<lambda>_ w. files w (os_path_join pp [''app'', ''build'', ''outputs'', ''apk'', ''debug'', ''app-debug.apk''])
               = Some (Text dummy_content))
     (\<lambda>_ _. True)"
  unfolding create_dummy_apk_def Let_def apk_path_join
  by (rule hoare_write) simp_all

lemma scaffold_writes_apk:
  "hoare (\<lambda>_. True) (generate_android_project e pp at pk fe)
     (\<lambda>_ w. files w (os_path_join pp [''app'', ''build'', ''outputs'', ''apk'', ''debug'', ''app-debug.apk''])
               = Some (Text dummy_content))
     (\<lambda>_ _. True)"
  unfolding generate_android_project_def
  apply (rule hoare_bind [where R = "\<lambda>_ _. True"], rule hoare_any)
  apply (rule hoare_bind [where R = "\<lambda>_ _. True"], rule hoare_any)
  apply (rule hoare_bind [where R = "\<lambda>_ _. True"], rule hoare_any)
  apply (rule hoare_bind [where R = "\<lambda>_ _. True"], rule hoare_any)
  apply (rule hoare_bind [where R = "\<lambda>_ _. True"], rule hoare_any)
  apply (rule hoare_bind [where R = "\<lambda>_ _. True"], rule hoare_any)
  apply (rule dummy_apk_written)
  done

lemma scaffold_spec:
  assumes mp: "mp = os_path_join pp [''metadata.json'']"
    and ap: "ap = os_path_join pp [''app'', ''build'', ''outputs'', ''apk'', ''debug'', ''app-debug.apk'']"
  shows "hoare (stage_building mp md0) (generate_android_project e pp at pk fe)
           (\<lambda>_ w. stage_building mp md0 w \<and> files w ap = Some (Text dummy_content))
           (\<lambda>msg w. stage_building mp md0 w \<and> file_fault e msg)"
proof -
  have keep: "hoare (stage_building mp md0) (generate_android_project e pp at pk fe)
           (\<lambda>_. stage_building mp md0) (\<lambda>_. stage_building mp md0)"
    unfolding mp
    by (rule hoare_frame [OF wo_generate_android_project]) (rule stage_building_frame)
  have apk: "hoare (\<lambda>w. True \<and> True) (generate_android_project e pp at pk fe)
     (\<lambda>_ w. files w ap = Some (Text dummy_content) \<and> True)
     (\<lambda>msg w. True \<and> file_fault e msg)"
    unfolding ap by (rule hoare_conj [OF scaffold_writes_apk scaffold_raise])
  show ?thesis
    by (rule hoare_weaken [OF hoare_conj [OF keep apk]]) simp_all
qed

subsection \<open>\<open>create_project\<close>\<close>

lemma initial_record_status:
  "md_status (initial_record e pid a) = ''building''" "md_progress (initial_record e pid a) = 0"
  by (simp_all add: initial_record_def)

lemma create_project_spec:
  assumes mp: "mp = metadata_path_of e pid" and ap: "ap = apk_path_of e pid"
    and md0: "md0 = initial_record e pid a"
  shows "hoare (stage_none mp)
           (create_project e pid (app_type a) (package_name a) (features a) [])
           (\<lambda>r w. r = project_path_of e pid \<and> stage_generated mp ap md0 w)
           (\<lambda>msg w. file_fault e msg
                \<and> ((stage_none mp w \<and> open_fault e) \<or> (stage_torn mp [] w \<and> early_fault e)
                   \<or> stage_building mp md0 w
                   \<or> (stage_torn mp [(''building'', 0)] w \<and> rewrite_fault e)))"
proof -
  have ne: "ap \<noteq> mp" unfolding ap mp by (rule apk_path_of_neq)
  have mp': "os_path_join (project_path_of e pid) [''metadata.json''] = mp"
    by (simp add: mp metadata_path_of_def)
  have ap': "os_path_join (project_path_of e pid)
      [''app'', ''build'', ''outputs'', ''apk'', ''debug'', ''app-debug.apk''] = ap"
    by (simp add: ap apk_path_of_def)
  have rec: "\<lparr>md_id = pid, md_app_type = app_type a, md_package_name = package_name a,
      md_features = features a, md_description = [], md_created_at = now_isoformat e,
      md_status = ''building'', md_progress = 0, md_apk_path = None, md_error = None\<rparr> = md0"
    by (simp add: md0 initial_record_def)
  show ?thesis
    unfolding create_project_def Let_def project_path_of_def [symmetric] mp' rec
    apply (rule hoare_bind [where R = "\<lambda>_. stage_none mp"])
     apply (rule hoare_makedirs)
      apply assumption
     apply (blast intro: open_faultI file_fault_job)
    apply (rule hoare_bind [where R = "\<lambda>_. stage_building mp md0"])
     apply (rule hoare_write)
       apply (simp add: stage_none_def stage_building_def committed_append md0 initial_record_status)
      apply (blast intro: open_faultI file_fault_job)
     apply (rule conjI)
      apply (erule file_fault_job)
     apply (rule disjI2, rule disjI1)
     apply (simp add: stage_none_def stage_torn_def committed_append early_fault_def)
    apply (rule hoare_bind [where R = "\<lambda>_ w. stage_building mp md0 w \<and> files w ap = Some (Text dummy_content)"])
     apply (rule hoare_weaken [OF scaffold_spec [OF mp' [symmetric] ap' [symmetric]]])
       apply assumption
      apply assumption
     apply blast
    apply (rule hoare_bind [where R = "\<lambda>_. stage_generated mp ap md0"])
     apply (rule hoare_write)
       apply (simp add: stage_generated_def stage_building_def committed_append ne)
      apply (blast intro: file_fault_job)
     apply (rule conjI)
      apply (erule file_fault_job)
     apply (rule disjI2, rule disjI2, rule disjI2)
     apply (simp add: stage_building_def stage_torn_def committed_append rewrite_fault_def)
    apply (rule hoare_return)
    apply simp
    done
qed

subsection \<open>the \<open>try\<close> block and the \<open>except\<close> block\<close>

text \<open>
  The \<open>try\<close> block returns with the record \<open>completed\<close>; when it raises, the record is in
  one of seven states, each with its cause.
\<close>

lemma try_spec:
  assumes mp: "mp = metadata_path_of e pid" and ap: "ap = apk_path_of e pid"
    and md0: "md0 = initial_record e pid a"
  shows "hoare (stage_none mp) (build_project_try e pid a)
           (\<lambda>_ w. stage_completed mp ap md0 w \<and> faults e Print_success = None)
           (\<lambda>msg w.
              (file_fault e msg
                \<and> ((stage_none mp w \<and> open_fault e) \<or> (stage_torn mp [] w \<and> early_fault e)
                   \<or> stage_building mp md0 w
                   \<or> (stage_torn mp [(''building'', 0)] w \<and> rewrite_fault e)
                   \<or> stage_generated mp ap md0 w
                   \<or> (stage_torn mp [(''building'', 0), (''generated'', 50)] w
                        \<and> rewrite_fault e)))
              \<or> (faults e Print_success = Some msg \<and> stage_completed mp ap md0 w))"
proof -
  have ne: "ap \<noteq> mp" unfolding ap mp by (rule apk_path_of_neq)
  have mp': "os_path_join (project_path_of e pid) [''metadata.json''] = mp"
    by (simp add: mp metadata_path_of_def)
  have ap': "os_path_join (project_path_of e pid)
      [''app'', ''build'', ''outputs'', ''apk'', ''debug'', ''app-debug.apk''] = ap"
    by (simp add: ap apk_path_of_def)
  let ?gen = "md0\<lparr>md_status := ''generated'', md_progress := 50\<rparr>"
  let ?E = "\<lambda>msg w.
              (file_fault e msg
                \<and> ((stage_none mp w \<and> open_fault e) \<or> (stage_torn mp [] w \<and> early_fault e)
                   \<or> stage_building mp md0 w
                   \<or> (stage_torn mp [(''building'', 0)] w \<and> rewrite_fault e)
                   \<or> stage_generated mp ap md0 w
                   \<or> (stage_torn mp [(''building'', 0), (''generated'', 50)] w
                        \<and> rewrite_fault e)))
              \<or> (faults e Print_success = Some msg \<and> stage_completed mp ap md0 w)"
  have upd: "hoare (stage_generated mp ap md0)
      (bind_io (json_load e Read_metadata mp) (\<lambda>metadata.
         write_file e Write_metadata_completed mp
           (Json (metadata\<lparr>md_status := ''completed'', md_progress := 100,
                    md_apk_path := Some ap\<rparr>))))
      (\<lambda>_. stage_completed mp ap md0) ?E"
    apply (rule hoare_bind [where R = "\<lambda>md w. md = ?gen \<and> stage_generated mp ap md0 w"])
     apply (rule hoare_load)
       apply (simp add: stage_generated_def)
      apply (simp add: stage_generated_def)
     apply (blast intro: file_fault_job)
    apply (rule hoare_assume)
    apply (rule hoare_write)
      apply (simp add: stage_generated_def stage_completed_def committed_append ne)
     apply (blast intro: file_fault_job)
    apply (rule disjI1)
    apply (rule conjI)
     apply (erule file_fault_job)
    apply (rule disjI2, rule disjI2, rule disjI2, rule disjI2, rule disjI2)
    apply (simp add: stage_generated_def stage_torn_def committed_append rewrite_fault_def)
    done
  have rest: "hoare (stage_generated mp ap md0)
      (bind_io (os_path_exists mp) (\<lambda>ex.
         bind_io
           (if ex then
              bind_io (json_load e Read_metadata mp) (\<lambda>metadata.
              write_file e Write_metadata_completed mp
                (Json (metadata\<lparr>md_status := ''completed'', md_progress := 100,
                         md_apk_path := Some ap\<rparr>)))
            else return_io ()) (\<lambda>_.
         py_print e Print_success)))
      (\<lambda>_ w. stage_completed mp ap md0 w \<and> faults e Print_success = None) ?E"
    apply (rule hoare_bind [where R = "\<lambda>ex w. ex \<and> stage_generated mp ap md0 w"])
     apply (rule hoare_exists)
     apply (simp add: stage_generated_def)
    apply (rule hoare_assume)
    apply (simp only: if_True)
    apply (rule hoare_bind [where R = "\<lambda>_. stage_completed mp ap md0"])
     apply (rule upd)
    apply (rule hoare_print)
     apply simp
    apply simp
    done
  show ?thesis
    unfolding build_project_try_def
    apply (rule hoare_bind [where R = "\<lambda>r w. r = project_path_of e pid \<and> stage_generated mp ap md0 w"])
     apply (rule hoare_weaken [OF create_project_spec [OF mp ap md0]])
       apply assumption
      apply assumption
     apply blast
    apply (rule hoare_assume)
    apply (simp only: Let_def mp' ap')
    apply (rule rest)
    done
qed

lemma except_spec_none:
  assumes mp: "mp = metadata_path_of e pid"
  shows "hoare (stage_none mp) (build_project_except e pid msg)
           (\<lambda>_. stage_none mp) (\<lambda>_ w. stage_none mp w \<and> handler_fault e)"
proof -
  have mp': "os_path_join (os_path_join (PROJECTS_DIR e) [pid]) [''metadata.json''] = mp"
    by (simp add: mp metadata_path_of_def project_path_of_def)
  show ?thesis
    unfolding build_project_except_def Let_def mp'
    apply (rule hoare_bind [where R = "\<lambda>_. stage_none mp"])
     apply (rule hoare_print)
      apply assumption
     apply (blast intro: handler_faultI)
    apply (rule hoare_bind [where R = "\<lambda>ex w. \<not> ex \<and> stage_none mp w"])
     apply (rule hoare_exists)
     apply (simp add: stage_none_def)
    apply (rule hoare_assume)
    apply (simp only: if_False)
    apply (rule hoare_return)
    apply assumption
    done
qed

text \<open>
  With the record file truncated, the \<open>except\<close> block finds the file, cannot load it, and
  raises.
\<close>

lemma except_spec_torn:
  assumes mp: "mp = metadata_path_of e pid"
  shows "hoare (stage_torn mp cs) (build_project_except e pid msg)
           (\<lambda>_ _. False) (\<lambda>_. stage_torn mp cs)"
proof -
  have mp': "os_path_join (os_path_join (PROJECTS_DIR e) [pid]) [''metadata.json''] = mp"
    by (simp add: mp metadata_path_of_def project_path_of_def)
  show ?thesis
    unfolding build_project_except_def Let_def mp'
    apply (rule hoare_bind [where R = "\<lambda>_. stage_torn mp cs"])
     apply (rule hoare_print)
      apply assumption
     apply assumption
    apply (rule hoare_bind [where R = "\<lambda>ex w. ex \<and> stage_torn mp cs w"])
     apply (rule hoare_exists)
     apply (simp add: stage_torn_def)
    apply (rule hoare_assume)
    apply (simp only: if_True)
    apply (rule hoare_bind [where R = "\<lambda>_ _. False"])
     apply (rule hoare_load_partial)
      apply (simp add: stage_torn_def)
     apply assumption
    apply (rule hoare_false)
    done
qed

lemma except_spec_record:
  assumes mp: "mp = metadata_path_of e pid"
    and P: "\<And>w. P w \<Longrightarrow> files w mp = Some (Json md)"
    and Q: "\<And>w. P w \<Longrightarrow>
              Q (w\<lparr>files := (files w)(mp \<mapsto> Json (md\<lparr>md_status := ''error'', md_error := Some msg\<rparr>)),
                    journal := journal w @ [(mp, Partial),
                       (mp, Json (md\<lparr>md_status := ''error'', md_error := Some msg\<rparr>))]\<rparr>)"
    and T: "\<And>w. P w \<Longrightarrow>
              T (w\<lparr>files := (files w)(mp \<mapsto> Partial), journal := journal w @ [(mp, Partial)]\<rparr>)"
  shows "hoare P (build_project_except e pid msg)
           (\<lambda>_ w. Q w \<and> \<not> handler_fault e) (\<lambda>_ w. handler_fault e \<and> (P w \<or> T w))"
proof -
  have mp': "os_path_join (os_path_join (PROJECTS_DIR e) [pid]) [''metadata.json''] = mp"
    by (simp add: mp metadata_path_of_def project_path_of_def)
  show ?thesis
    unfolding build_project_except_def Let_def mp'
    apply (rule hoare_bind [where R = "\<lambda>_ w. faults e Print_error = None \<and> P w"])
     apply (rule hoare_print)
      apply simp
     apply (blast intro: handler_faultI)
    apply (rule hoare_assume)
    apply (rule hoare_bind [where R = "\<lambda>ex w. ex \<and> P w"])
     apply (rule hoare_exists)
     apply (simp add: P)
    apply (rule hoare_assume)
    apply (simp only: if_True)
    apply (rule hoare_bind [where R = "\<lambda>m w. (m = md \<and> faults e Handler_read_metadata = None) \<and> P w"])
     apply (rule hoare_load)
       apply (simp add: P)
      apply (simp add: P)
     apply (blast intro: handler_faultI)
    apply (rule hoare_assume)
    apply (rule hoare_write)
      apply (simp add: Q handler_fault_def)
     apply (blast intro: handler_faultI)
    apply (blast intro: handler_faultI T)
    done
qed

lemma except_spec_building:
  assumes mp: "mp = metadata_path_of e pid" and md0: "md0 = initial_record e pid a"
  shows "hoare (stage_building mp md0) (build_project_except e pid msg)
           (\<lambda>_ w. stage_error_building mp md0 msg w \<and> \<not> handler_fault e)
           (\<lambda>_ w. handler_fault e
                \<and> (stage_building mp md0 w \<or> stage_torn mp [(''building'', 0)] w))"
  by (rule except_spec_record [OF mp, where md = md0])
     (simp_all add: stage_building_def stage_error_building_def stage_torn_def committed_append
        md0 initial_record_status)

lemma except_spec_generated:
  assumes mp: "mp = metadata_path_of e pid" and md0: "md0 = initial_record e pid a"
  shows "hoare (stage_generated mp ap md0) (build_project_except e pid msg)
           (\<lambda>_ w. stage_error_generated mp md0 msg w \<and> \<not> handler_fault e)
           (\<lambda>_ w. handler_fault e
                \<and> (stage_generated mp ap md0 w
                   \<or> stage_torn mp [(''building'', 0), (''generated'', 50)] w))"
  by (rule except_spec_record [OF mp, where md = "md0\<lparr>md_status := ''generated'', md_progress := 50\<rparr>"])
     (simp_all add: stage_generated_def stage_error_generated_def stage_torn_def committed_append)

lemma except_spec_completed:
  assumes mp: "mp = metadata_path_of e pid" and md0: "md0 = initial_record e pid a"
  shows "hoare (stage_completed mp ap md0) (build_project_except e pid msg)
           (\<lambda>_ w. stage_error_completed mp ap md0 msg w \<and> \<not> handler_fault e)
           (\<lambda>_ w. handler_fault e
                \<and> (stage_completed mp ap md0 w
                   \<or> stage_torn mp [(''building'', 0), (''generated'', 50), (''completed'', 100)] w))"
  by (rule except_spec_record [OF mp, where md = "md0\<lparr>md_status := ''completed'', md_progress := 100,
                                       md_apk_path := Some ap\<rparr>"])
     (simp_all add: stage_completed_def stage_error_completed_def stage_torn_def committed_append)

subsection \<open>the thread function\<close>

lemma fresh_stage_none: "files w mp = None \<Longrightarrow> journal w = [] \<Longrightarrow> stage_none mp w"
  by (simp add: stage_none_def)

lemma thread_try_except:
  "build_project_thread e pid a = try_except (build_project_try e pid a) (build_project_except e pid)"
  by (rule ext) (simp add: build_project_thread_def try_except_def)

text \<open>The states in which the thread function can leave the record.\<close>

lemma thread_outcome:
  assumes mp: "mp = metadata_path_of e pid" and ap: "ap = apk_path_of e pid"
    and md0: "md0 = initial_record e pid a"
    and fresh: "stage_none mp w"
    and run: "build_project_thread e pid a w = (r, w')"
  shows "stage_completed mp ap md0 w'
       \<or> stage_none mp w'
       \<or> stage_torn mp [] w'
       \<or> stage_torn mp [(''building'', 0)] w'
       \<or> stage_torn mp [(''building'', 0), (''generated'', 50)] w'
       \<or> stage_building mp md0 w'
       \<or> stage_generated mp ap md0 w'
       \<or> (\<exists>msg. stage_error_building mp md0 msg w')
       \<or> (\<exists>msg. stage_error_generated mp md0 msg w')
       \<or> (faults e Print_success \<noteq> None
            \<and> (stage_torn mp [(''building'', 0), (''generated'', 50), (''completed'', 100)] w'
               \<or> (\<exists>msg. stage_error_completed mp ap md0 msg w')))"
proof -
  obtain tr w1 where tr_eq: "build_project_try e pid a w = (tr, w1)"
    by (cases "build_project_try e pid a w")
  show ?thesis
  proof (cases tr)
    case (Inr u)
    from hoareD [OF try_spec [OF mp ap md0] fresh tr_eq] Inr
    have "stage_completed mp ap md0 w1" by simp
    moreover from run have "w' = w1"
      by (simp add: build_project_thread_def tr_eq Inr)
    ultimately show ?thesis by simp
  next
    case (Inl msg)
    from hoareD [OF try_spec [OF mp ap md0] fresh tr_eq] Inl
    have E: "(file_fault e msg
                \<and> ((stage_none mp w1 \<and> open_fault e) \<or> (stage_torn mp [] w1 \<and> early_fault e)
                   \<or> stage_building mp md0 w1
                   \<or> (stage_torn mp [(''building'', 0)] w1 \<and> rewrite_fault e)
                   \<or> stage_generated mp ap md0 w1
                   \<or> (stage_torn mp [(''building'', 0), (''generated'', 50)] w1
                        \<and> rewrite_fault e)))
              \<or> (faults e Print_success = Some msg \<and> stage_completed mp ap md0 w1)"
      by simp
    from run have ex: "build_project_except e pid msg w1 = (r, w')"
      by (simp add: build_project_thread_def tr_eq Inl)
    from E consider (none) "stage_none mp w1"
      | (torn0) "stage_torn mp [] w1"
      | (building) "stage_building mp md0 w1"
      | (torn1) "stage_torn mp [(''building'', 0)] w1"
      | (generated) "stage_generated mp ap md0 w1"
      | (torn2) "stage_torn mp [(''building'', 0), (''generated'', 50)] w1"
      | (completed) "faults e Print_success = Some msg" "stage_completed mp ap md0 w1"
      by blast
    then show ?thesis
    proof cases
      case none
      from hoareD [OF except_spec_none [OF mp] none ex]
      have "stage_none mp w'" by (cases r) simp_all
      then show ?thesis by simp
    next
      case torn0
      from hoareD [OF except_spec_torn [OF mp] torn0 ex]
      have "stage_torn mp [] w'" by (cases r) simp_all
      then show ?thesis by simp
    next
      case building
      from hoareD [OF except_spec_building [OF mp md0] building ex]
      have "stage_error_building mp md0 msg w' \<or> stage_building mp md0 w'
          \<or> stage_torn mp [(''building'', 0)] w'"
        by (cases r) auto
      then show ?thesis by blast
    next
      case torn1
      from hoareD [OF except_spec_torn [OF mp] torn1 ex]
      have "stage_torn mp [(''building'', 0)] w'" by (cases r) simp_all
      then show ?thesis by simp
    next
      case generated
      from hoareD [OF except_spec_generated [OF mp md0] generated ex]
      have "stage_error_generated mp md0 msg w' \<or> stage_generated mp ap md0 w'
          \<or> stage_torn mp [(''building'', 0), (''generated'', 50)] w'"
        by (cases r) auto
      then show ?thesis by blast
    next
      case torn2
      from hoareD [OF except_spec_torn [OF mp] torn2 ex]
      have "stage_torn mp [(''building'', 0), (''generated'', 50)] w'" by (cases r) simp_all
      then show ?thesis by simp
    next
      case completed
      from hoareD [OF except_spec_completed [OF mp md0] completed(2) ex]
      have "stage_error_completed mp ap md0 msg w' \<or> stage_completed mp ap md0 w'
          \<or> stage_torn mp [(''building'', 0), (''generated'', 50), (''completed'', 100)] w'"
        by (cases r) auto
      with completed(1) show ?thesis by auto
    qed
  qed
qed

text \<open>The statuses committed in each state.\<close>

lemma stage_committed:
  "stage_none mp w \<Longrightarrow> committed mp (journal w) = []"
  "stage_torn mp cs w \<Longrightarrow> committed mp (journal w) = cs"
  "stage_building mp md0 w \<Longrightarrow> committed mp (journal w) = [(''building'', 0)]"
  "stage_generated mp ap md0 w \<Longrightarrow>
     committed mp (journal w) = [(''building'', 0), (''generated'', 50)]"
  "stage_completed mp ap md0 w \<Longrightarrow>
     committed mp (journal w) = [(''building'', 0), (''generated'', 50), (''completed'', 100)]"
  "stage_error_building mp md0 msg w \<Longrightarrow>
     committed mp (journal w) = [(''building'', 0), (''error'', 0)]"
  "stage_error_generated mp md0 msg w \<Longrightarrow>
     committed mp (journal w) = [(''building'', 0), (''generated'', 50), (''error'', 50)]"
  "stage_error_completed mp ap md0 msg w \<Longrightarrow>
     committed mp (journal w)
       = [(''building'', 0), (''generated'', 50), (''completed'', 100), (''error'', 100)]"
  by (simp_all add: stage_none_def stage_torn_def stage_building_def stage_generated_def
        stage_completed_def stage_error_building_def stage_error_generated_def
        stage_error_completed_def)

lemma thread_committed:
  assumes fresh: "files w (metadata_path_of e pid) = None" "journal w = []"
  shows "committed (metadata_path_of e pid) (journal (snd (build_project_thread e pid a w)))
         \<in> {[],
             [(''building'', 0)],
             [(''building'', 0), (''error'', 0)],
             [(''building'', 0), (''generated'', 50)],
             [(''building'', 0), (''generated'', 50), (''error'', 50)],
             [(''building'', 0), (''generated'', 50), (''completed'', 100)],
             [(''building'', 0), (''generated'', 50), (''completed'', 100), (''error'', 100)]}"
    and "faults e Print_success = None \<Longrightarrow>
         committed (metadata_path_of e pid) (journal (snd (build_project_thread e pid a w)))
         \<in> {[],
             [(''building'', 0)],
             [(''building'', 0), (''error'', 0)],
             [(''building'', 0), (''generated'', 50)],
             [(''building'', 0), (''generated'', 50), (''error'', 50)],
             [(''building'', 0), (''generated'', 50), (''completed'', 100)]}"
proof -
  obtain r w' where run: "build_project_thread e pid a w = (r, w')"
    by (cases "build_project_thread e pid a w")
  note c = thread_outcome [OF refl refl refl fresh_stage_none [OF fresh] run]
  have j: "journal (snd (build_project_thread e pid a w)) = journal w'" by (simp add: run)
  show "committed (metadata_path_of e pid) (journal (snd (build_project_thread e pid a w)))
         \<in> {[],
             [(''building'', 0)],
             [(''building'', 0), (''error'', 0)],
             [(''building'', 0), (''generated'', 50)],
             [(''building'', 0), (''generated'', 50), (''error'', 50)],
             [(''building'', 0), (''generated'', 50), (''completed'', 100)],
             [(''building'', 0), (''generated'', 50), (''completed'', 100), (''error'', 100)]}"
    unfolding j using c
    by (elim disjE exE conjE) (simp_all add: stage_committed)
  show "committed (metadata_path_of e pid) (journal (snd (build_project_thread e pid a w)))
         \<in> {[],
             [(''building'', 0)],
             [(''building'', 0), (''error'', 0)],
             [(''building'', 0), (''generated'', 50)],
             [(''building'', 0), (''generated'', 50), (''error'', 50)],
             [(''building'', 0), (''generated'', 50), (''completed'', 100)]}"
    if "faults e Print_success = None"
    unfolding j using c that
    by (elim disjE exE conjE) (simp_all add: stage_committed)
qed

subsection \<open>what the handlers answer\<close>

lemma metadata_path_unfold:
  "os_path_join (os_path_join (PROJECTS_DIR e) [pid]) [''metadata.json'']
     = metadata_path_of e pid"
  by (simp add: metadata_path_of_def project_path_of_def)

lemma status_of_record:
  assumes "fs (metadata_path_of e pid) = Some (Json md)"
  shows "status_of (get_project_status e fs pid) = Some (md_status md)"
  unfolding get_project_status_def Let_def metadata_path_unfold
  by (simp add: assms status_of_def split: option.splits)

lemma status_of_no_record:
  assumes "fs (metadata_path_of e pid) = None"
  shows "get_project_status e fs pid = Status_404"
  unfolding get_project_status_def Let_def metadata_path_unfold by (simp add: assms)

lemma status_of_partial:
  assumes "fs (metadata_path_of e pid) = Some Partial"
  shows "get_project_status e fs pid = Status_500"
  unfolding get_project_status_def Let_def metadata_path_unfold by (simp add: assms)

lemma status_404_iff:
  "get_project_status e fs pid = Status_404 \<longleftrightarrow> fs (metadata_path_of e pid) = None"
  unfolding get_project_status_def Let_def metadata_path_unfold
  by (simp split: option.splits file_data.splits)

lemma download_stub:
  assumes "fs (apk_path_of e pid) = Some f"
  shows "download_apk e fs pid = Send_file (apk_path_of e pid) f"
proof -
  have ap: "os_path_join (os_path_join (PROJECTS_DIR e) [pid])
      [''app'', ''build'', ''outputs'', ''apk'', ''debug'', ''app-debug.apk''] = apk_path_of e pid"
    by (simp add: apk_path_of_def project_path_of_def)
  show ?thesis
    unfolding download_apk_def Let_def ap by (simp add: assms)
qed

subsection \<open>the state \<open>create_project\<close> leaves\<close>

lemma create_project_generated:
  assumes fresh: "files w (metadata_path_of e pid) = None" "journal w = []"
    and run: "create_project e pid (app_type (a::analysis)) (package_name a) (features a) [] w
                = (Inr r, w')"
  shows "status_of (get_project_status e (files w') pid) = Some ''generated''
       \<and> download_apk e (files w') pid = Send_file (apk_path_of e pid) (Text dummy_content)"
proof -
  from hoareD [OF create_project_spec [OF refl refl refl] fresh_stage_none [OF fresh] run]
  have g: "stage_generated (metadata_path_of e pid) (apk_path_of e pid)
             (initial_record e pid a) w'"
    by simp
  then have rec: "files w' (metadata_path_of e pid)
      = Some (Json ((initial_record e pid a)\<lparr>md_status := ''generated'', md_progress := 50\<rparr>))"
    and apk: "files w' (apk_path_of e pid) = Some (Text dummy_content)"
    by (simp_all add: stage_generated_def)
  from status_of_record [of "files w'" e pid, OF rec]
    download_stub [of "files w'" e pid, OF apk]
  show ?thesis by simp
qed

lemma create_project_returns:
  assumes fresh: "files w (metadata_path_of e pid) = None" "journal w = []"
    and nf: "\<And>msg. \<not> fault_msg e msg"
  shows "fst (create_project e pid (app_type (a::analysis)) (package_name a) (features a) [] w)
           = Inr (project_path_of e pid)"
proof -
  obtain x w' where run:
    "create_project e pid (app_type a) (package_name a) (features a) [] w = (x, w')"
    by (cases "create_project e pid (app_type a) (package_name a) (features a) [] w")
  from hoareD [OF create_project_spec [OF refl refl refl] fresh_stage_none [OF fresh] run] nf
  show ?thesis by (cases x) (auto simp add: run dest: file_fault_msg)
qed

subsection \<open>the \<open>except\<close> block on a whole record\<close>

lemma handler_records_error:
  assumes rec: "files w1 (metadata_path_of e pid) = Some (Json md)"
    and nh: "\<not> handler_fault e"
  shows "build_project_except e pid msg w1
           = (Inr (),
              w1\<lparr>files := (files w1)(metadata_path_of e pid
                            \<mapsto> Json (md\<lparr>md_status := ''error'', md_error := Some msg\<rparr>)),
                  journal := journal w1 @ [(metadata_path_of e pid, Partial),
                     (metadata_path_of e pid,
                      Json (md\<lparr>md_status := ''error'', md_error := Some msg\<rparr>))]\<rparr>)"
proof -
  let ?mp = "metadata_path_of e pid"
  let ?w2 = "w1\<lparr>files := (files w1)(?mp \<mapsto> Json (md\<lparr>md_status := ''error'', md_error := Some msg\<rparr>)),
                  journal := journal w1 @ [(?mp, Partial),
                     (?mp, Json (md\<lparr>md_status := ''error'', md_error := Some msg\<rparr>))]\<rparr>"
  obtain r w' where ex: "build_project_except e pid msg w1 = (r, w')"
    by (cases "build_project_except e pid msg w1")
  have "hoare (\<lambda>w. w = w1) (build_project_except e pid msg)
           (\<lambda>_ w. w = ?w2 \<and> \<not> handler_fault e) (\<lambda>_ w. handler_fault e \<and> (w = w1 \<or> True))"
    by (rule except_spec_record [OF refl, where md = md]) (simp_all add: rec)
  from hoareD [OF this refl ex] nh have "r = Inr () \<and> w' = ?w2" by (cases r) simp_all
  with ex show ?thesis by simp
qed

subsection \<open>concrete runs\<close>

lemma env_ok_sel:
  "PROJECTS_DIR env_ok = ''projects''"
  "faults env_ok = no_fault" "dump_faults env_ok = no_fault"
  by (simp_all add: env_ok_def)

lemma env_ok_no_fault: "\<not> fault_msg env_ok msg"
  by (simp add: fault_msg_def env_ok_def no_fault_def)

lemma env_ok_no_early_fault: "\<not> early_fault env_ok" "\<not> open_fault env_ok"
  by (simp_all add: early_fault_def open_fault_def env_ok_def no_fault_def)

lemma empty_world_fresh: "files empty_world p = None" "journal empty_world = []"
  by (simp_all add: empty_world_def no_files_def)

lemma analysis_simple_calculator:
  "analyze_description ''simple calculator''
     = \<lparr>app_type = ''calculator'', features = [],
        package_name = ''com.rahl.simple.calculator'', detected_features = 0\<rparr>"
  by code_simp

lemma ok_run_completed:
  "committed (metadata_path_of env_ok pid)
     (journal (snd (build_project_thread env_ok pid a empty_world)))
   = [(''building'', 0), (''generated'', 50), (''completed'', 100)]"
proof -
  obtain tr w1 where tr_eq: "build_project_try env_ok pid a empty_world = (tr, w1)"
    by (cases "build_project_try env_ok pid a empty_world")
  from hoareD [OF try_spec [OF refl refl refl] fresh_stage_none [OF empty_world_fresh] tr_eq]
  have "tr = Inr () \<and> stage_completed (metadata_path_of env_ok pid) (apk_path_of env_ok pid)
          (initial_record env_ok pid a) w1"
    using env_ok_no_fault
    by (cases tr) (auto dest: file_fault_msg fault_msgI)
  then have tr: "tr = Inr ()"
    and c: "stage_completed (metadata_path_of env_ok pid) (apk_path_of env_ok pid)
          (initial_record env_ok pid a) w1"
    by simp_all
  from stage_committed(5) [OF c] show ?thesis
    by (simp add: build_project_thread_def tr_eq tr)
qed

lemma env_print_success_fails_sel:
  "faults env_print_success_fails = print_success_fault"
  "dump_faults env_print_success_fails = no_fault"
  by (simp_all add: env_print_success_fails_def)

text \<open>
  The build succeeds, the \<open>print\<close> of the success message raises, and the \<open>except\<close> block
  records an error over the completed record.
\<close>

lemma print_success_fault_run:
  "committed (metadata_path_of env_print_success_fails pid)
     (journal (snd (build_project_thread env_print_success_fails pid a empty_world)))
   = [(''building'', 0), (''generated'', 50), (''completed'', 100), (''error'', 100)]"
proof -
  let ?e = env_print_success_fails
  obtain tr w1 where tr_eq: "build_project_try ?e pid a empty_world = (tr, w1)"
    by (cases "build_project_try ?e pid a empty_world")
  obtain r w' where ex_eq: "build_project_thread ?e pid a empty_world = (r, w')"
    by (cases "build_project_thread ?e pid a empty_world")
  have nff: "\<not> file_fault ?e msg" for msg
    by (auto simp add: file_fault_def env_print_success_fails_sel print_success_fault_def
          no_fault_def)
  have ps: "faults ?e Print_success = Some ''[Errno 32] Broken pipe''"
    by (simp add: env_print_success_fails_sel print_success_fault_def)
  have nh: "\<not> handler_fault ?e"
    by (simp add: handler_fault_def env_print_success_fails_sel print_success_fault_def
          no_fault_def)
  from hoareD [OF try_spec [OF refl refl refl] fresh_stage_none [OF empty_world_fresh] tr_eq]
  obtain msg where tr: "tr = Inl msg"
    and c: "stage_completed (metadata_path_of ?e pid) (apk_path_of ?e pid)
          (initial_record ?e pid a) w1"
    using nff ps by (cases tr) auto
  from ex_eq have ex: "build_project_except ?e pid msg w1 = (r, w')"
    by (simp add: build_project_thread_def tr_eq tr)
  from hoareD [OF except_spec_completed [OF refl refl] c ex] nh
  have "stage_error_completed (metadata_path_of ?e pid) (apk_path_of ?e pid)
          (initial_record ?e pid a) msg w'"
    by (cases r) simp_all
  then show ?thesis by (simp add: ex_eq stage_committed)
qed

lemma env_manifest_fails_sel:
  "PROJECTS_DIR env_manifest_fails = ''projects''"
  "now_isoformat env_manifest_fails = ''2024-01-01T00:00:00''"
  "faults env_manifest_fails = manifest_fault"
  "dump_faults env_manifest_fails = no_fault"
  by (simp_all add: env_manifest_fails_def)

lemma env_mkdir_fails_sel:
  "PROJECTS_DIR env_mkdir_fails = ''projects''"
  "now_isoformat env_mkdir_fails = ''2024-01-01T00:00:00''"
  "faults env_mkdir_fails = mkdir_fault"
  "dump_faults env_mkdir_fails = no_fault"
  by (simp_all add: env_mkdir_fails_def)

lemma env_manifest_print_fails_sel:
  "PROJECTS_DIR env_manifest_print_fails = ''projects''"
  "now_isoformat env_manifest_print_fails = ''2024-01-01T00:00:00''"
  "faults env_manifest_print_fails = manifest_print_fault"
  "dump_faults env_manifest_print_fails = no_fault"
  by (simp_all add: env_manifest_print_fails_def)

lemma scaffold_manifest_fails:
  "generate_android_project env_manifest_fails pp at pk fe w
     = (Inl ''[Errno 28] No space left on device'', w)"
  by (simp add: generate_android_project_def generate_manifest_def bind_io_def os_makedirs_def
        write_file_def open_w_def env_manifest_fails_sel manifest_fault_def Let_def)

lemma scaffold_manifest_print_fails:
  "generate_android_project env_manifest_print_fails pp at pk fe w
     = (Inl ''[Errno 28] No space left on device'', w)"
  by (simp add: generate_android_project_def generate_manifest_def bind_io_def os_makedirs_def
        write_file_def open_w_def env_manifest_print_fails_sel manifest_print_fault_def Let_def)

lemmas thread_defs =
  build_project_thread_def build_project_try_def build_project_except_def create_project_def
  bind_io_def return_io_def write_file_def open_w_def dump_close_def py_print_def
  os_makedirs_def os_path_exists_def json_load_def
  os_path_join_def os_path_join2_def metadata_path_of_def project_path_of_def
  empty_world_def no_files_def no_fault_def Let_def

lemma manifest_fault_run:
  "committed (metadata_path_of env_manifest_fails ''ab12cd34'')
     (journal (snd (build_project_thread env_manifest_fails ''ab12cd34''
        (analyze_description ''simple calculator'') empty_world)))
   = [(''building'', 0), (''error'', 0)]"
  by (simp add: analysis_simple_calculator thread_defs scaffold_manifest_fails
        env_manifest_fails_sel manifest_fault_def)

lemma manifest_fault_try:
  "fst (build_project_try env_manifest_fails ''ab12cd34''
        (analyze_description ''simple calculator'') empty_world)
     = Inl ''[Errno 28] No space left on device''"
  by (simp add: analysis_simple_calculator thread_defs scaffold_manifest_fails
        env_manifest_fails_sel manifest_fault_def)

lemma mkdir_fault_run:
  "fst (build_project_try env_mkdir_fails ''ab12cd34''
        (analyze_description ''simple calculator'') empty_world)
       = Inl ''[Errno 28] No space left on device''
   \<and> build_project_thread env_mkdir_fails ''ab12cd34''
        (analyze_description ''simple calculator'') empty_world = (Inr (), empty_world)"
  by (simp add: analysis_simple_calculator thread_defs env_mkdir_fails_sel mkdir_fault_def)

text \<open>
  The manifest cannot be written and the \<open>print\<close> of the error message raises: the
  exception leaves the thread function and the record stays \<open>building\<close>.
\<close>

lemma manifest_print_fault_run:
  "fst (build_project_try env_manifest_print_fails ''ab12cd34''
        (analyze_description ''simple calculator'') empty_world)
       = Inl ''[Errno 28] No space left on device''
   \<and> fst (build_project_thread env_manifest_print_fails ''ab12cd34''
        (analyze_description ''simple calculator'') empty_world) = Inl ''UnicodeEncodeError''
   \<and> status_of (get_project_status env_manifest_print_fails
        (files (snd (build_project_thread env_manifest_print_fails ''ab12cd34''
           (analyze_description ''simple calculator'') empty_world))) ''ab12cd34'')
       = Some ''building''"
  by (simp add: analysis_simple_calculator thread_defs scaffold_manifest_print_fails
        env_manifest_print_fails_sel manifest_print_fault_def get_project_status_def status_of_def)

subsection \<open>the record file during a run\<close>

lemma bind_io_assoc: "bind_io (bind_io m f) g = bind_io m (\<lambda>x. bind_io (f x) g)"
proof
  fix w
  obtain r w1 where mw: "m w = (r, w1)" by (cases "m w")
  show "bind_io (bind_io m f) g w = bind_io m (\<lambda>x. bind_io (f x) g) w"
    by (cases r) (simp_all add: bind_io_def mw)
qed

lemma bind_io_return: "bind_io (return_io x) f = f x"
  by (rule ext) (simp add: bind_io_def return_io_def)

lemma wo_try_except:
  assumes m: "writes_only A m" and h: "\<And>msg. writes_only A (h msg)"
  shows "writes_only A (try_except m h)"
  unfolding writes_only_def
proof
  fix w
  obtain r w1 where mw: "m w = (r, w1)" by (cases "m w")
  from m obtain es1 where es1: "list_all A es1"
      and w1: "w1 = w\<lparr>files := replay (files w) es1, journal := journal w @ es1\<rparr>"
    unfolding writes_only_def using mw by (metis snd_conv)
  show "\<exists>es. list_all A es \<and> snd (try_except m h w)
          = w\<lparr>files := replay (files w) es, journal := journal w @ es\<rparr>"
  proof (cases r)
    case (Inr u)
    then have "snd (try_except m h w) = w1" by (simp add: try_except_def mw)
    with es1 w1 show ?thesis by blast
  next
    case (Inl msg)
    then have b: "snd (try_except m h w) = snd (h msg w1)" by (simp add: try_except_def mw)
    from h [of msg] obtain es2 where es2: "list_all A es2"
      and w2: "snd (h msg w1) = w1\<lparr>files := replay (files w1) es2, journal := journal w1 @ es2\<rparr>"
      unfolding writes_only_def by blast
    have "w1\<lparr>files := replay (files w1) es2, journal := journal w1 @ es2\<rparr>
            = w\<lparr>files := replay (files w) (es1 @ es2), journal := journal w @ (es1 @ es2)\<rparr>"
      by (simp add: w1 replay_append)
    then have "snd (try_except m h w)
        = w\<lparr>files := replay (files w) (es1 @ es2), journal := journal w @ (es1 @ es2)\<rparr>"
      using b w2 by simp
    moreover have "list_all A (es1 @ es2)" using es1 es2 by simp
    ultimately show ?thesis by blast
  qed
qed

lemma wo_except:
  "writes_only (admissible (metadata_path_of e pid)) (build_project_except e pid msg)"
  unfolding build_project_except_def Let_def metadata_path_unfold
  by (intro wo_bind wo_print wo_exists wo_if wo_load wo_write wo_return) simp_all

lemma wo_try_rest:
  "writes_only (admissible (metadata_path_of e pid)) (try_rest e pid a)"
  unfolding try_rest_def Let_def metadata_path_unfold
  by (intro wo_bind wo_print wo_exists wo_if wo_load wo_write wo_return
        wo_mono [OF wo_generate_android_project [of "os_path_join (PROJECTS_DIR e) [pid]",
                       unfolded metadata_path_unfold] text_elsewhere_admissible])
     simp_all

lemma try_split:
  "build_project_try e pid a
     = bind_io (os_makedirs e Makedirs_project) (\<lambda>_.
       bind_io (open_w e Write_metadata_building (metadata_path_of e pid)) (\<lambda>_.
       bind_io (dump_close e Write_metadata_building (metadata_path_of e pid)
                  (Json (initial_record e pid a))) (\<lambda>_.
       try_rest e pid a)))"
  by (simp add: build_project_try_def create_project_def try_rest_def write_file_def Let_def
        bind_io_assoc bind_io_return initial_record_def metadata_path_of_def project_path_of_def)

lemma wo_thread:
  "writes_only (admissible (metadata_path_of e pid)) (build_project_thread e pid a)"
  unfolding thread_try_except try_split
  by (intro wo_try_except wo_bind wo_makedirs wo_open wo_dump wo_try_rest wo_except) simp_all

lemma wo_journal:
  assumes "writes_only A m"
  shows "\<exists>es. list_all A es \<and> journal (snd (m w)) = journal w @ es
            \<and> files (snd (m w)) = replay (files w) es"
proof -
  from assms obtain es where es: "list_all A es"
    and s: "snd (m w) = w\<lparr>files := replay (files w) es, journal := journal w @ es\<rparr>"
    unfolding writes_only_def by blast
  have "journal (snd (m w)) = journal w @ es" by (subst s) simp
  moreover have "files (snd (m w)) = replay (files w) es" by (subst s) simp
  ultimately show ?thesis using es by blast
qed

lemma thread_journal:
  assumes j: "journal w = []"
  shows "list_all (admissible (metadata_path_of e pid))
           (journal (snd (build_project_thread e pid a w)))
       \<and> files (snd (build_project_thread e pid a w))
           = replay (files w) (journal (snd (build_project_thread e pid a w)))"
  using wo_journal [OF wo_thread, of e pid a w] by (auto simp add: j)

text \<open>
  When the project directory cannot be created or the record cannot be opened, the thread
  function changes no file.
\<close>

lemma thread_open_fault:
  assumes "open_fault e" and "files w (metadata_path_of e pid) = None"
  shows "snd (build_project_thread e pid a w) = w"
proof -
  have "\<exists>msg. build_project_try e pid a w = (Inl msg, w)"
  proof (cases "faults e Makedirs_project")
    case (Some msg)
    then show ?thesis by (simp add: try_split bind_io_def os_makedirs_def)
  next
    case None
    with assms(1) obtain msg where "faults e Write_metadata_building = Some msg"
      by (auto simp add: open_fault_def)
    with None show ?thesis by (simp add: try_split bind_io_def os_makedirs_def open_w_def)
  qed
  then obtain msg where t: "build_project_try e pid a w = (Inl msg, w)" by blast
  have "snd (build_project_except e pid msg w) = w"
    unfolding build_project_except_def Let_def metadata_path_unfold
    by (simp add: bind_io_def py_print_def os_path_exists_def return_io_def assms(2)
          split: option.splits)
  with t show ?thesis by (simp add: build_project_thread_def)
qed

text \<open>Otherwise its first change is the truncation of the record file.\<close>

lemma thread_after_open:
  assumes "\<not> open_fault e"
  shows "build_project_thread e pid a w
       = try_except
           (bind_io (dump_close e Write_metadata_building (metadata_path_of e pid)
                       (Json (initial_record e pid a))) (\<lambda>_. try_rest e pid a))
           (build_project_except e pid)
           (w\<lparr>files := (files w)(metadata_path_of e pid \<mapsto> Partial),
               journal := journal w @ [(metadata_path_of e pid, Partial)]\<rparr>)"
proof -
  from assms have f: "faults e Makedirs_project = None" "faults e Write_metadata_building = None"
    by (simp_all add: open_fault_def)
  show ?thesis
    unfolding thread_try_except try_split
    by (simp add: try_except_def bind_io_def os_makedirs_def open_w_def f)
qed

lemma thread_after_first_write:
  assumes "\<not> early_fault e"
  shows "build_project_thread e pid a w
       = try_except (try_rest e pid a) (build_project_except e pid)
           (w\<lparr>files := (files w)(metadata_path_of e pid \<mapsto> Json (initial_record e pid a)),
               journal := journal w @ [(metadata_path_of e pid, Partial),
                  (metadata_path_of e pid, Json (initial_record e pid a))]\<rparr>)"
proof -
  from assms have f: "faults e Makedirs_project = None" "faults e Write_metadata_building = None"
      "dump_faults e Write_metadata_building = None"
    by (simp_all add: early_fault_def)
  show ?thesis
    unfolding thread_try_except try_split
    by (simp add: try_except_def bind_io_def os_makedirs_def open_w_def dump_close_def f)
qed

lemma thread_journal_open:
  assumes "\<not> open_fault e" and j: "journal w = []"
  shows "\<exists>es. journal (snd (build_project_thread e pid a w))
           = (metadata_path_of e pid, Partial) # es"
proof -
  let ?mp = "metadata_path_of e pid"
  let ?m = "try_except
           (bind_io (dump_close e Write_metadata_building ?mp
                       (Json (initial_record e pid a))) (\<lambda>_. try_rest e pid a))
           (build_project_except e pid)"
  let ?w1 = "w\<lparr>files := (files w)(?mp \<mapsto> Partial), journal := journal w @ [(?mp, Partial)]\<rparr>"
  have "writes_only (admissible ?mp) ?m"
    by (intro wo_try_except wo_bind wo_dump wo_try_rest wo_except) simp
  from wo_journal [OF this, of ?w1]
  obtain es where "journal (snd (?m ?w1)) = journal ?w1 @ es" by blast
  then have "journal (snd (build_project_thread e pid a w)) = (?mp, Partial) # es"
    by (simp add: thread_after_open [OF assms(1)] j)
  then show ?thesis by blast
qed

lemma thread_journal_first:
  assumes "\<not> early_fault e" and j: "journal w = []"
  shows "\<exists>es. journal (snd (build_project_thread e pid a w))
           = (metadata_path_of e pid, Partial)
             # (metadata_path_of e pid, Json (initial_record e pid a)) # es"
proof -
  let ?mp = "metadata_path_of e pid"
  let ?m = "try_except (try_rest e pid a) (build_project_except e pid)"
  let ?w1 = "w\<lparr>files := (files w)(?mp \<mapsto> Json (initial_record e pid a)),
               journal := journal w @ [(?mp, Partial), (?mp, Json (initial_record e pid a))]\<rparr>"
  have "writes_only (admissible ?mp) ?m"
    by (intro wo_try_except wo_try_rest wo_except)
  from wo_journal [OF this, of ?w1]
  obtain es where "journal (snd (?m ?w1)) = journal ?w1 @ es" by blast
  then have "journal (snd (build_project_thread e pid a w))
      = (?mp, Partial) # (?mp, Json (initial_record e pid a)) # es"
    by (simp add: thread_after_first_write [OF assms(1)] j)
  then show ?thesis by blast
qed

text \<open>
  A file that exists stays; and the record file, touched by admissible changes only, is
  absent, truncated or a whole record.
\<close>

lemma replay_keeps: "fs p \<noteq> None \<Longrightarrow> replay fs es p \<noteq> None"
proof (induction es arbitrary: fs)
  case Nil
  then show ?case by simp
next
  case (Cons x es)
  obtain q c where x: "x = (q, c)" by (cases x)
  from Cons.prems have "(fs(q \<mapsto> c)) p \<noteq> None" by simp
  then have "replay (fs(q \<mapsto> c)) es p \<noteq> None" by (rule Cons.IH)
  moreover have "replay fs (x # es) = replay (fs(q \<mapsto> c)) es" by (simp add: x)
  ultimately show ?case by simp
qed

lemma replay_admissible:
  "list_all (admissible mp) es \<Longrightarrow>
   fs mp = None \<or> fs mp = Some Partial \<or> (\<exists>md. fs mp = Some (Json md)) \<Longrightarrow>
   replay fs es mp = None \<or> replay fs es mp = Some Partial
     \<or> (\<exists>md. replay fs es mp = Some (Json md))"
proof (induction es arbitrary: fs)
  case Nil
  then show ?case by simp
next
  case (Cons x es)
  obtain p c where x: "x = (p, c)" by (cases x)
  from Cons.prems have rest: "list_all (admissible mp) es" and ad: "admissible mp (p, c)"
    by (simp_all add: x)
  have st: "(fs(p \<mapsto> c)) mp = None \<or> (fs(p \<mapsto> c)) mp = Some Partial
      \<or> (\<exists>md. (fs(p \<mapsto> c)) mp = Some (Json md))"
  proof (cases "p = mp")
    case True
    with ad show ?thesis by (cases c) simp_all
  next
    case False
    with Cons.prems(2) show ?thesis by simp
  qed
  have "replay (fs(p \<mapsto> c)) es mp = None \<or> replay (fs(p \<mapsto> c)) es mp = Some Partial
     \<or> (\<exists>md. replay (fs(p \<mapsto> c)) es mp = Some (Json md))"
    using rest st by (rule Cons.IH)
  then show ?case by (simp only: x replay.simps)
qed

lemma take_take_drop: "n \<le> m \<Longrightarrow> take m xs = take n xs @ drop n (take m xs)"
proof -
  assume "n \<le> m"
  then have "take n (take m xs) = take n xs" by (simp add: min_def)
  then show ?thesis using append_take_drop_id [of n "take m xs"] by simp
qed

lemma status_at_monotone:
  assumes "n \<le> m" and "status_at e fs j pid n \<noteq> Status_404"
  shows "status_at e fs j pid m \<noteq> Status_404"
proof -
  from assms(2) have "replay fs (take n j) (metadata_path_of e pid) \<noteq> None"
    by (simp add: status_at_def status_404_iff)
  then have k: "replay (replay fs (take n j)) (drop n (take m j)) (metadata_path_of e pid) \<noteq> None"
    by (rule replay_keeps)
  have "replay fs (take m j) = replay fs (take n j @ drop n (take m j))"
    using take_take_drop [OF assms(1), of j] by (rule arg_cong)
  then have "replay fs (take m j) = replay (replay fs (take n j)) (drop n (take m j))"
    by (simp only: replay_append)
  with k have "replay fs (take m j) (metadata_path_of e pid) \<noteq> None" by simp
  then show ?thesis by (simp add: status_at_def status_404_iff)
qed

lemma status_at_classified:
  assumes "list_all (admissible (metadata_path_of e pid)) j"
    and "fs (metadata_path_of e pid) = None"
  shows "(status_at e fs j pid n = Status_404
            \<and> replay fs (take n j) (metadata_path_of e pid) = None)
       \<or> (status_at e fs j pid n = Status_500
            \<and> replay fs (take n j) (metadata_path_of e pid) = Some Partial)
       \<or> (\<exists>md. replay fs (take n j) (metadata_path_of e pid) = Some (Json md)
            \<and> status_of (status_at e fs j pid n) = Some (md_status md))"
proof -
  let ?mp = "metadata_path_of e pid"
  let ?fs = "replay fs (take n j)"
  have "list_all (admissible ?mp) (take n j)" using assms(1) by (rule list_all_take)
  then have "?fs ?mp = None \<or> ?fs ?mp = Some Partial \<or> (\<exists>md. ?fs ?mp = Some (Json md))"
    by (rule replay_admissible) (simp add: assms(2))
  then consider (absent) "?fs ?mp = None" | (torn) "?fs ?mp = Some Partial"
    | (whole) md where "?fs ?mp = Some (Json md)"
    by auto
  then show ?thesis
  proof cases
    case absent
    from status_of_no_record [of ?fs e pid, OF this] absent
    show ?thesis by (simp add: status_at_def)
  next
    case torn
    from status_of_partial [of ?fs e pid, OF this] torn
    show ?thesis by (simp add: status_at_def)
  next
    case whole
    from status_of_record [of ?fs e pid md, OF this] whole
    show ?thesis by (simp add: status_at_def)
  qed
qed

subsection \<open>the scaffolding has a fixed effect\<close>















section \<open>The build job: lifecycle, failures, download\<close>

text \<open>
  Claim C2 (a record is persisted before the identifier is returned, so a status query
  after the response finds it), as stated: the handler of a build request writes no file;
  it returns the identifier and starts the thread.  Until the thread has opened the record
  file, a status query is answered with not-found.
\<close>

theorem no_record_at_response_time:
  "build_apk_route (Some ''simple calculator'') ''ab12cd34-0000-4000-8000-000000000000''
     = (Build_200 ''ab12cd34'' (analyze_description ''simple calculator''),
        Some (''ab12cd34'', analyze_description ''simple calculator''))
   \<and> get_project_status env_ok (files empty_world) ''ab12cd34'' = Status_404"
proof -
  have route: "build_apk_route (Some ''simple calculator'') ''ab12cd34-0000-4000-8000-000000000000''
     = (Build_200 ''ab12cd34'' (analyze_description ''simple calculator''),
        Some (''ab12cd34'', analyze_description ''simple calculator''))"
    by (simp add: build_apk_route_def py_strip_def py_isspace_def Let_def)
  have nf: "get_project_status env_ok (files empty_world) ''ab12cd34'' = Status_404"
    by (rule status_of_no_record) (rule empty_world_fresh)
  from route nf show ?thesis by (rule conjI)
qed

text \<open>
  Claim C2, amended: the record is created by the background task, not by the handler.
  For a project with no record yet, a status query sees the files of the start with the
  first \<open>n\<close> changes of the run applied, for some \<open>n\<close>.  Before any change it is answered with
  not-found, and for good when the project directory cannot be created or the record file
  cannot be opened.  Otherwise the first change is the truncation of the record file by
  \<open>open(path, 'w')\<close>, and from then on the query is never answered with not-found again:
  it is answered with a server error while the file is truncated (during every write of
  the record, and for good after a dump that raised) and with the record otherwise; the
  first record it can return says \<open>building\<close>.
\<close>

theorem status_query_during_run:
  fixes e pid a w
  defines "j \<equiv> journal (snd (build_project_thread e pid a w))"
  assumes "files w (metadata_path_of e pid) = None" and "journal w = []"
  shows "status_at e (files w) j pid 0 = Status_404
       \<and> files (snd (build_project_thread e pid a w)) = replay (files w) j
       \<and> (open_fault e \<longrightarrow> j = [])
       \<and> (\<not> open_fault e \<longrightarrow> j \<noteq> [] \<and> status_at e (files w) j pid 1 = Status_500)
       \<and> (\<not> early_fault e \<longrightarrow> status_of (status_at e (files w) j pid 2) = Some ''building'')
       \<and> (\<forall>n m. n \<le> m \<and> status_at e (files w) j pid n \<noteq> Status_404
              \<longrightarrow> status_at e (files w) j pid m \<noteq> Status_404)
       \<and> (\<forall>n. (status_at e (files w) j pid n = Status_404
                  \<and> replay (files w) (take n j) (metadata_path_of e pid) = None)
              \<or> (status_at e (files w) j pid n = Status_500
                  \<and> replay (files w) (take n j) (metadata_path_of e pid) = Some Partial)
              \<or> (\<exists>md. replay (files w) (take n j) (metadata_path_of e pid) = Some (Json md)
                    \<and> status_of (status_at e (files w) j pid n) = Some (md_status md)))"
proof -
  let ?mp = "metadata_path_of e pid"
  from thread_journal [OF assms(3), of e pid a]
  have adm: "list_all (admissible ?mp) j"
    and fin: "files (snd (build_project_thread e pid a w)) = replay (files w) j"
    by (simp_all add: j_def)
  have c0: "status_at e (files w) j pid 0 = Status_404"
    using status_of_no_record [of "files w" e pid, OF assms(2)] by (simp add: status_at_def)
  have c1: "open_fault e \<longrightarrow> j = []"
  proof
    assume "open_fault e"
    from thread_open_fault [OF this assms(2), of a] show "j = []"
      by (simp add: j_def assms(3))
  qed
  have c2: "\<not> open_fault e \<longrightarrow> j \<noteq> [] \<and> status_at e (files w) j pid 1 = Status_500"
  proof
    assume "\<not> open_fault e"
    from thread_journal_open [OF this assms(3), of pid a]
    obtain es where es: "j = (?mp, Partial) # es" unfolding j_def by blast
    have "replay (files w) (take 1 j) ?mp = Some Partial" by (simp add: es)
    from status_of_partial [of "replay (files w) (take 1 j)" e pid, OF this] es
    show "j \<noteq> [] \<and> status_at e (files w) j pid 1 = Status_500"
      by (simp add: status_at_def)
  qed
  have c3: "\<not> early_fault e \<longrightarrow> status_of (status_at e (files w) j pid 2) = Some ''building''"
  proof
    assume "\<not> early_fault e"
    from thread_journal_first [OF this assms(3), of pid a]
    obtain es where es: "j = (?mp, Partial) # (?mp, Json (initial_record e pid a)) # es"
      unfolding j_def by blast
    have t: "take 2 j = [(?mp, Partial), (?mp, Json (initial_record e pid a))]"
      by (simp add: es numeral_2_eq_2)
    have "replay (files w) (take 2 j) ?mp = Some (Json (initial_record e pid a))"
      unfolding t by simp
    from status_of_record [of "replay (files w) (take 2 j)" e pid, OF this]
    show "status_of (status_at e (files w) j pid 2) = Some ''building''"
      by (simp add: status_at_def initial_record_status)
  qed
  have c4: "\<forall>n m. n \<le> m \<and> status_at e (files w) j pid n \<noteq> Status_404
              \<longrightarrow> status_at e (files w) j pid m \<noteq> Status_404"
    using status_at_monotone [of _ _ e "files w" j pid] by blast
  have c5: "\<forall>n. (status_at e (files w) j pid n = Status_404
                  \<and> replay (files w) (take n j) ?mp = None)
              \<or> (status_at e (files w) j pid n = Status_500
                  \<and> replay (files w) (take n j) ?mp = Some Partial)
              \<or> (\<exists>md. replay (files w) (take n j) ?mp = Some (Json md)
                    \<and> status_of (status_at e (files w) j pid n) = Some (md_status md))"
    using status_at_classified [of e pid j "files w", OF adm assms(2)] by blast
  from c0 fin c1 c2 c3 c4 c5 show ?thesis by blast
qed

theorem status_query_during_run_witness:
  "files empty_world (metadata_path_of env_ok ''ab12cd34'') = None
   \<and> journal empty_world = []
   \<and> \<not> open_fault env_ok \<and> \<not> early_fault env_ok
   \<and> status_at env_ok (files empty_world)
        (journal (snd (build_project_thread env_ok ''ab12cd34''
           (analyze_description ''simple calculator'') empty_world))) ''ab12cd34'' 0
       = Status_404
   \<and> status_at env_ok (files empty_world)
        (journal (snd (build_project_thread env_ok ''ab12cd34''
           (analyze_description ''simple calculator'') empty_world))) ''ab12cd34'' 1
       = Status_500
   \<and> status_of (status_at env_ok (files empty_world)
        (journal (snd (build_project_thread env_ok ''ab12cd34''
           (analyze_description ''simple calculator'') empty_world))) ''ab12cd34'' 2)
       = Some ''building''
   \<and> status_at env_ok (files empty_world)
        (journal (snd (build_project_thread env_ok ''ab12cd34''
           (analyze_description ''simple calculator'') empty_world))) ''ab12cd34'' 7
       \<noteq> Status_404"
proof -
  let ?j = "journal (snd (build_project_thread env_ok ''ab12cd34''
           (analyze_description ''simple calculator'') empty_world))"
  note t = status_query_during_run [OF empty_world_fresh, of env_ok "''ab12cd34''"
      "analyze_description ''simple calculator''"]
  from t env_ok_no_early_fault
  have s1: "status_at env_ok (files empty_world) ?j ''ab12cd34'' 1 = Status_500" by blast
  from t have mono: "(1::nat) \<le> 7 \<and> status_at env_ok (files empty_world) ?j ''ab12cd34'' 1
        \<noteq> Status_404 \<longrightarrow> status_at env_ok (files empty_world) ?j ''ab12cd34'' 7 \<noteq> Status_404"
    by blast
  have s7: "status_at env_ok (files empty_world) ?j ''ab12cd34'' 7 \<noteq> Status_404"
    using mono s1 by simp
  from t env_ok_no_early_fault empty_world_fresh s1 s7 show ?thesis by blast
qed

text \<open>
  Claim C3 (the statuses run received, generated, completed or received, generated, error),
  as stated: no record ever has the status \<open>received\<close>.  A run without failure commits
  \<open>building\<close>, \<open>generated\<close>, \<open>completed\<close>; a run whose manifest cannot be written commits
  \<open>building\<close> and then \<open>error\<close>, without \<open>generated\<close>, and the progress stays 0; and a run
  whose \<open>print\<close> of the success message raises commits \<open>error\<close> after \<open>completed\<close>, so the
  error state is entered from a state that is not in progress.
\<close>

theorem status_sequence_has_no_received:
  "committed (metadata_path_of env_ok ''ab12cd34'')
     (journal (snd (build_project_thread env_ok ''ab12cd34''
        (analyze_description ''simple calculator'') empty_world)))
     = [(''building'', 0), (''generated'', 50), (''completed'', 100)]
   \<and> committed (metadata_path_of env_manifest_fails ''ab12cd34'')
     (journal (snd (build_project_thread env_manifest_fails ''ab12cd34''
        (analyze_description ''simple calculator'') empty_world)))
     = [(''building'', 0), (''error'', 0)]
   \<and> committed (metadata_path_of env_print_success_fails ''ab12cd34'')
     (journal (snd (build_project_thread env_print_success_fails ''ab12cd34''
        (analyze_description ''simple calculator'') empty_world)))
     = [(''building'', 0), (''generated'', 50), (''completed'', 100), (''error'', 100)]"
  using ok_run_completed [of "''ab12cd34''" "analyze_description ''simple calculator''"]
    manifest_fault_run
    print_success_fault_run [of "''ab12cd34''" "analyze_description ''simple calculator''"]
  by (intro conjI)

text \<open>
  Claim C3, amended: for a project with no record yet, the statuses and progress values
  committed to its record form one of seven sequences.  The first is \<open>building\<close> with
  progress 0, then \<open>generated\<close> with 50, then \<open>completed\<close> with 100; \<open>error\<close> follows
  \<open>building\<close>, \<open>generated\<close> or \<open>completed\<close> and keeps the progress; nothing follows \<open>error\<close>.
  \<open>error\<close> follows \<open>completed\<close> only when the \<open>print\<close> of the success message raises: when
  it does not, the sequence is one of the first six and nothing follows \<open>completed\<close>.
\<close>

theorem committed_status_sequences:
  assumes "files w (metadata_path_of e pid) = None" and "journal w = []"
  shows "committed (metadata_path_of e pid) (journal (snd (build_project_thread e pid a w)))
         \<in> {[],
             [(''building'', 0)],
             [(''building'', 0), (''error'', 0)],
             [(''building'', 0), (''generated'', 50)],
             [(''building'', 0), (''generated'', 50), (''error'', 50)],
             [(''building'', 0), (''generated'', 50), (''completed'', 100)],
             [(''building'', 0), (''generated'', 50), (''completed'', 100), (''error'', 100)]}
       \<and> (faults e Print_success = None \<longrightarrow>
           committed (metadata_path_of e pid) (journal (snd (build_project_thread e pid a w)))
           \<in> {[],
               [(''building'', 0)],
               [(''building'', 0), (''error'', 0)],
               [(''building'', 0), (''generated'', 50)],
               [(''building'', 0), (''generated'', 50), (''error'', 50)],
               [(''building'', 0), (''generated'', 50), (''completed'', 100)]})"
  using thread_committed [OF assms, of a] by blast

theorem committed_status_sequences_witness:
  "files empty_world (metadata_path_of env_print_success_fails ''ab12cd34'') = None
   \<and> journal empty_world = []
   \<and> committed (metadata_path_of env_print_success_fails ''ab12cd34'')
        (journal (snd (build_project_thread env_print_success_fails ''ab12cd34''
           (analyze_description ''simple calculator'') empty_world)))
       \<in> {[],
           [(''building'', 0)],
           [(''building'', 0), (''error'', 0)],
           [(''building'', 0), (''generated'', 50)],
           [(''building'', 0), (''generated'', 50), (''error'', 50)],
           [(''building'', 0), (''generated'', 50), (''completed'', 100)],
           [(''building'', 0), (''generated'', 50), (''completed'', 100), (''error'', 100)]}
   \<and> faults env_ok Print_success = None
   \<and> committed (metadata_path_of env_ok ''ab12cd34'')
        (journal (snd (build_project_thread env_ok ''ab12cd34''
           (analyze_description ''simple calculator'') empty_world)))
       \<in> {[],
           [(''building'', 0)],
           [(''building'', 0), (''error'', 0)],
           [(''building'', 0), (''generated'', 50)],
           [(''building'', 0), (''generated'', 50), (''error'', 50)],
           [(''building'', 0), (''generated'', 50), (''completed'', 100)]}"
proof -
  have ps: "faults env_ok Print_success = None" by (simp add: env_ok_sel no_fault_def)
  from committed_status_sequences [OF empty_world_fresh, of env_print_success_fails
      "''ab12cd34''" "analyze_description ''simple calculator''"]
    committed_status_sequences [OF empty_world_fresh, of env_ok
      "''ab12cd34''" "analyze_description ''simple calculator''"]
    empty_world_fresh ps
  show ?thesis by blast
qed

text \<open>
  Claim C5 (a download while the status is \<open>generated\<close> gives not-found), as stated: when
  \<open>create_project\<close> has returned, the status is \<open>generated\<close> and the stub artifact of
  \<open>create_dummy_apk\<close> lies at the conventional path; the download sends it.
\<close>

theorem download_while_generated_sends_stub:
  "status_of (get_project_status env_ok
      (files (snd (create_project env_ok ''ab12cd34'' ''calculator''
                ''com.rahl.simple.calculator'' [] [] empty_world))) ''ab12cd34'')
     = Some ''generated''
   \<and> download_apk env_ok
      (files (snd (create_project env_ok ''ab12cd34'' ''calculator''
                ''com.rahl.simple.calculator'' [] [] empty_world))) ''ab12cd34''
     = Send_file ''projects/ab12cd34/app/build/outputs/apk/debug/app-debug.apk''
         (Text dummy_content)"
proof -
  let ?a = "\<lparr>app_type = ''calculator'', features = [],
        package_name = ''com.rahl.simple.calculator'', detected_features = 0\<rparr>"
  let ?run = "create_project env_ok ''ab12cd34'' (app_type ?a) (package_name ?a) (features ?a) []
               empty_world"
  from create_project_returns [OF empty_world_fresh env_ok_no_fault, of "''ab12cd34''" ?a]
  have "fst ?run = Inr (project_path_of env_ok ''ab12cd34'')" .
  then have run: "?run = (Inr (project_path_of env_ok ''ab12cd34''), snd ?run)"
    by (metis prod.collapse)
  have ap: "apk_path_of env_ok ''ab12cd34''
              = ''projects/ab12cd34/app/build/outputs/apk/debug/app-debug.apk''"
    by (simp add: apk_path_of_def project_path_of_def env_ok_def os_path_join_def
          os_path_join2_def)
  from create_project_generated [OF empty_world_fresh run]
  show ?thesis by (simp add: ap)
qed

text \<open>
  Claim C5, amended: for a project with no record yet, whenever \<open>create_project\<close> returns,
  the record has the status \<open>generated\<close> and a download request is answered with the stub
  artifact file at the conventional build-output path, not with not-found.
\<close>

theorem download_after_create_project:
  assumes "files w (metadata_path_of e pid) = None" and "journal w = []"
    and "create_project e pid (app_type (a::analysis)) (package_name a) (features a) [] w
           = (Inr r, w')"
  shows "status_of (get_project_status e (files w') pid) = Some ''generated''
       \<and> download_apk e (files w') pid = Send_file (apk_path_of e pid) (Text dummy_content)"
  using assms by (rule create_project_generated)

theorem download_after_create_project_witness:
  "files empty_world (metadata_path_of env_ok ''ab12cd34'') = None
   \<and> journal empty_world = []
   \<and> create_project env_ok ''ab12cd34''
         (app_type (analyze_description ''simple calculator''))
         (package_name (analyze_description ''simple calculator''))
         (features (analyze_description ''simple calculator'')) [] empty_world
       = (Inr (project_path_of env_ok ''ab12cd34''),
          snd (create_project env_ok ''ab12cd34''
                (app_type (analyze_description ''simple calculator''))
                (package_name (analyze_description ''simple calculator''))
                (features (analyze_description ''simple calculator'')) [] empty_world))
   \<and> download_apk env_ok
        (files (snd (create_project env_ok ''ab12cd34''
                (app_type (analyze_description ''simple calculator''))
                (package_name (analyze_description ''simple calculator''))
                (features (analyze_description ''simple calculator'')) [] empty_world)))
        ''ab12cd34''
       = Send_file (apk_path_of env_ok ''ab12cd34'') (Text dummy_content)"
proof -
  let ?a = "analyze_description ''simple calculator''"
  let ?run = "create_project env_ok ''ab12cd34'' (app_type ?a) (package_name ?a) (features ?a) []
               empty_world"
  from create_project_returns [OF empty_world_fresh env_ok_no_fault, of "''ab12cd34''" ?a]
  have "fst ?run = Inr (project_path_of env_ok ''ab12cd34'')" .
  then have run: "?run = (Inr (project_path_of env_ok ''ab12cd34''), snd ?run)"
    by (metis prod.collapse)
  from download_after_create_project [OF empty_world_fresh run] empty_world_fresh run
  show ?thesis by blast
qed

text \<open>
  Claim C6 (every failure of the background task ends in a persisted \<open>error\<close> record and
  no fault leaves the task), as stated.  When the creation of the project directory fails,
  the request has been answered with success, the \<open>except\<close> block finds no record and
  writes none, and the thread function returns; a status query finds nothing.  And when
  the manifest cannot be written while the standard output cannot encode the symbol of the
  error message, the \<open>print\<close> at the head of the \<open>except\<close> block raises: the exception
  leaves the thread function and the record still says \<open>building\<close>.
\<close>

theorem failure_before_record_leaves_nothing:
  "build_apk_route (Some ''simple calculator'') ''ab12cd34-0000-4000-8000-000000000000''
     = (Build_200 ''ab12cd34'' (analyze_description ''simple calculator''),
        Some (''ab12cd34'', analyze_description ''simple calculator''))
   \<and> fst (build_project_try env_mkdir_fails ''ab12cd34''
        (analyze_description ''simple calculator'') empty_world)
       = Inl ''[Errno 28] No space left on device''
   \<and> build_project_thread env_mkdir_fails ''ab12cd34''
        (analyze_description ''simple calculator'') empty_world = (Inr (), empty_world)
   \<and> get_project_status env_mkdir_fails (files empty_world) ''ab12cd34'' = Status_404
   \<and> fst (build_project_try env_manifest_print_fails ''ab12cd34''
        (analyze_description ''simple calculator'') empty_world)
       = Inl ''[Errno 28] No space left on device''
   \<and> fst (build_project_thread env_manifest_print_fails ''ab12cd34''
        (analyze_description ''simple calculator'') empty_world) = Inl ''UnicodeEncodeError''
   \<and> status_of (get_project_status env_manifest_print_fails
        (files (snd (build_project_thread env_manifest_print_fails ''ab12cd34''
           (analyze_description ''simple calculator'') empty_world))) ''ab12cd34'')
       = Some ''building''"
proof -
  have route: "build_apk_route (Some ''simple calculator'') ''ab12cd34-0000-4000-8000-000000000000''
     = (Build_200 ''ab12cd34'' (analyze_description ''simple calculator''),
        Some (''ab12cd34'', analyze_description ''simple calculator''))"
    by (simp add: build_apk_route_def py_strip_def py_isspace_def Let_def)
  have nf: "get_project_status env_mkdir_fails (files empty_world) ''ab12cd34'' = Status_404"
    by (rule status_of_no_record) (rule empty_world_fresh)
  from route mkdir_fault_run nf manifest_print_fault_run show ?thesis by blast
qed

text \<open>
  Claim C6, amended: for a project with no record yet, when the \<open>try\<close> block raises with
  message \<open>msg\<close> while the record file holds a whole record, and no operation of the
  \<open>except\<close> block raises (its \<open>print\<close>, its read, its write), then the thread function
  returns, and the record persisted is that record with the status \<open>error\<close> and the message
  attached.  The record file holds a whole record at that moment unless the failing
  operation is the creation of the project directory or a write of the record itself:
  it does whenever neither the operations up to the first write of the record nor a later
  dump of the record raise.
\<close>

theorem failure_after_record_is_recorded:
  assumes "files w (metadata_path_of e pid) = None" and "journal w = []"
    and "build_project_try e pid a w = (Inl msg, w1)"
    and "\<not> handler_fault e"
  shows "fault_msg e msg
       \<and> (\<not> early_fault e \<and> \<not> rewrite_fault e \<longrightarrow>
            (\<exists>md. files w1 (metadata_path_of e pid) = Some (Json md)))
       \<and> (\<forall>md. files w1 (metadata_path_of e pid) = Some (Json md) \<longrightarrow>
            fst (build_project_thread e pid a w) = Inr ()
            \<and> files (snd (build_project_thread e pid a w)) (metadata_path_of e pid)
                = Some (Json (md\<lparr>md_status := ''error'', md_error := Some msg\<rparr>))
            \<and> status_of (get_project_status e
                  (files (snd (build_project_thread e pid a w))) pid) = Some ''error'')"
proof -
  let ?mp = "metadata_path_of e pid"
  let ?ap = "apk_path_of e pid"
  let ?md0 = "initial_record e pid a"
  from hoareD [OF try_spec [OF refl refl refl] fresh_stage_none [OF assms(1,2)] assms(3)]
  have E: "(file_fault e msg
                \<and> ((stage_none ?mp w1 \<and> open_fault e) \<or> (stage_torn ?mp [] w1 \<and> early_fault e)
                   \<or> stage_building ?mp ?md0 w1
                   \<or> (stage_torn ?mp [(''building'', 0)] w1 \<and> rewrite_fault e)
                   \<or> stage_generated ?mp ?ap ?md0 w1
                   \<or> (stage_torn ?mp [(''building'', 0), (''generated'', 50)] w1
                        \<and> rewrite_fault e)))
              \<or> (faults e Print_success = Some msg \<and> stage_completed ?mp ?ap ?md0 w1)"
    by simp
  have fm: "fault_msg e msg" using E by (auto dest: file_fault_msg fault_msgI)
  have whole: "\<not> early_fault e \<and> \<not> rewrite_fault e \<longrightarrow>
            (\<exists>md. files w1 ?mp = Some (Json md))"
    using E
    by (auto simp add: stage_building_def stage_generated_def stage_completed_def
          dest: open_fault_early)
  have rec: "\<forall>md. files w1 ?mp = Some (Json md) \<longrightarrow>
            fst (build_project_thread e pid a w) = Inr ()
            \<and> files (snd (build_project_thread e pid a w)) ?mp
                = Some (Json (md\<lparr>md_status := ''error'', md_error := Some msg\<rparr>))
            \<and> status_of (get_project_status e
                  (files (snd (build_project_thread e pid a w))) pid) = Some ''error''"
  proof (intro allI impI)
    fix md assume f: "files w1 ?mp = Some (Json md)"
    have run: "build_project_thread e pid a w = build_project_except e pid msg w1"
      by (simp add: build_project_thread_def assms(3))
    note h = handler_records_error [OF f assms(4), of msg]
    have r: "fst (build_project_thread e pid a w) = Inr ()" by (simp add: run h)
    have s: "files (snd (build_project_thread e pid a w)) ?mp
                = Some (Json (md\<lparr>md_status := ''error'', md_error := Some msg\<rparr>))"
      by (simp add: run h)
    from status_of_record [of "files (snd (build_project_thread e pid a w))" e pid, OF s]
    have "status_of (get_project_status e
                  (files (snd (build_project_thread e pid a w))) pid) = Some ''error''"
      by simp
    with r s show "fst (build_project_thread e pid a w) = Inr ()
            \<and> files (snd (build_project_thread e pid a w)) ?mp
                = Some (Json (md\<lparr>md_status := ''error'', md_error := Some msg\<rparr>))
            \<and> status_of (get_project_status e
                  (files (snd (build_project_thread e pid a w))) pid) = Some ''error''"
      by simp
  qed
  from fm whole rec show ?thesis by blast
qed

theorem failure_after_record_is_recorded_witness:
  "files empty_world (metadata_path_of env_manifest_fails ''ab12cd34'') = None
   \<and> journal empty_world = []
   \<and> fst (build_project_try env_manifest_fails ''ab12cd34''
        (analyze_description ''simple calculator'') empty_world)
       = Inl ''[Errno 28] No space left on device''
   \<and> \<not> handler_fault env_manifest_fails
   \<and> \<not> early_fault env_manifest_fails \<and> \<not> rewrite_fault env_manifest_fails
   \<and> fst (build_project_thread env_manifest_fails ''ab12cd34''
        (analyze_description ''simple calculator'') empty_world) = Inr ()
   \<and> status_of (get_project_status env_manifest_fails
        (files (snd (build_project_thread env_manifest_fails ''ab12cd34''
           (analyze_description ''simple calculator'') empty_world))) ''ab12cd34'')
       = Some ''error''"
proof -
  let ?tr = "build_project_try env_manifest_fails ''ab12cd34''
        (analyze_description ''simple calculator'') empty_world"
  have t: "?tr = (Inl ''[Errno 28] No space left on device'', snd ?tr)"
    using manifest_fault_try by (metis prod.collapse)
  have ef: "\<not> early_fault env_manifest_fails"
    by (simp add: early_fault_def env_manifest_fails_sel manifest_fault_def no_fault_def)
  have rf: "\<not> rewrite_fault env_manifest_fails"
    by (simp add: rewrite_fault_def env_manifest_fails_sel no_fault_def)
  have hf: "\<not> handler_fault env_manifest_fails"
    by (simp add: handler_fault_def env_manifest_fails_sel manifest_fault_def no_fault_def)
  from failure_after_record_is_recorded [OF empty_world_fresh t hf]
    empty_world_fresh manifest_fault_try ef rf hf
  show ?thesis by blast
qed



section \<open>Facts about the build invoker\<close>






















section \<open>The build invoker: working directory and failure results\<close>





end
